theory Spec2Isabelle
  imports Complex_Main "HOL-Library.Log_Nat" "HOL-Library.Word"
begin

section \<open>Values, exceptions and effects\<close>

text \<open>
  The screening service (\<^verbatim>\<open>services/geminiService\<close>, lines 65-393 of \<^verbatim>\<open>src/types.ts\<close>) and the
  batch driver of the \<^verbatim>\<open>App\<close> component (lines 395-1095) are TypeScript running in a browser.
  The embedding makes the following choices.

  \<^item> What the service builds itself (prompts, messages, file names, error texts) is a
    \<^typ>\<open>string\<close>. What comes back from a provider, and every string inside a parsed value,
    is a \<open>ustring\<close>: a list of 16-bit code units, as a JavaScript string is.
  \<^item> A JavaScript number inside a parsed value is a \<open>number\<close>: a rational (every finite
    double is one), negative zero, or an infinity. Rounding to a double is \<open>to_double\<close>.
    Retry counts and delays in milliseconds are \<^typ>\<open>int\<close>.
  \<^item> A thrown value is an \<open>exn\<close>: the name of its class and its \<^verbatim>\<open>message\<close>.
    An \<^verbatim>\<open>async\<close> function is a state transformer returning \<open>exn + 'a\<close>, where \<open>Inl\<close> is a
    rejected promise.
  \<^item> Console output, alerts and the progress text are not modelled.
\<close>

datatype exn = Exn (name: string) (message: string)

abbreviation Error :: "string \<Rightarrow> exn" where
  "Error msg \<equiv> Exn ''Error'' msg"

type_synonym ustring = "16 word list"

text \<open>The code units of a text written with characters below 256.\<close>

definition units :: "string \<Rightarrow> ustring" where
  "units s = map (\<lambda>c. of_nat (of_char c)) s"

datatype number = Finite rat | NegZero | PosInfinity | NegInfinity

text \<open>
  A value as \<^verbatim>\<open>JSON.parse\<close> returns it: \<^verbatim>\<open>null\<close>, a boolean, a number, a string, an array,
  or an object with its properties.
\<close>

datatype json =
    JNull
  | JBool bool
  | JNumber number
  | JString ustring
  | JArray "json list"
  | JObject "(ustring \<times> json) list"

text \<open>
  Reading the property \<open>k\<close> of a parsed value, as the predicates of the claims do:
  \<open>None\<close> when the value is not an object or has no such property.
\<close>

definition js_get :: "string \<Rightarrow> json \<Rightarrow> json option" where
  "js_get k v = (case v of JObject kvs \<Rightarrow> map_of kvs (units k) | _ \<Rightarrow> None)"

section \<open>The retry helper\<close>

text \<open>
  \<^verbatim>\<open>
  async function retryOperation<T>(operation: () => Promise<T>, retries = 2, delay = 1000): Promise<T> {
    try {
      return await operation();
    } catch (error) {
      if (retries > 0) {
        console.warn(...);
        await new Promise(resolve => setTimeout(resolve, delay));
        return retryOperation(operation, retries - 1, delay * 2);
      }
      throw error;
    }
  }
  \<close>
  The state \<open>'s\<close> is whatever the operation acts on; \<open>sleep d\<close> is the effect of awaiting
  \<^verbatim>\<open>setTimeout(resolve, d)\<close> on it.
\<close>

function retryOperation ::
  "(int \<Rightarrow> 's \<Rightarrow> 's) \<Rightarrow> ('s \<Rightarrow> (exn + 'a) \<times> 's) \<Rightarrow> int \<Rightarrow> int \<Rightarrow> 's \<Rightarrow> (exn + 'a) \<times> 's"
where
  "retryOperation sleep operation retries delay s =
     (case operation s of
        (Inr v, s1) \<Rightarrow> (Inr v, s1)
      | (Inl error, s1) \<Rightarrow>
          if retries > 0
          then retryOperation sleep operation (retries - 1) (delay * 2) (sleep delay s1)
          else (Inl error, s1))"
  by pat_completeness auto
termination
  by (relation "measure (\<lambda>(sleep, operation, retries, delay, s). nat retries)") auto

declare retryOperation.simps [simp del]

text \<open>
  An observer around an operation: it counts the invocations, keeps the errors raised and
  the delays awaited, and leaves the operation's own state and outcome as they are.
\<close>

record 's probe =
  invocations :: nat
  raised :: "exn list"
  waited :: "int list"
  inner :: 's

definition probed :: "('s \<Rightarrow> (exn + 'a) \<times> 's) \<Rightarrow> 's probe \<Rightarrow> (exn + 'a) \<times> 's probe" where
  "probed operation p =
     (case operation (inner p) of
        (r, s1) \<Rightarrow>
          (r, p\<lparr>invocations := Suc (invocations p),
                 raised := (case r of Inl e \<Rightarrow> raised p @ [e] | Inr v \<Rightarrow> raised p),
                 inner := s1\<rparr>))"

definition probe_sleep :: "(int \<Rightarrow> 's \<Rightarrow> 's) \<Rightarrow> int \<Rightarrow> 's probe \<Rightarrow> 's probe" where
  "probe_sleep sleep d p = p\<lparr>waited := waited p @ [d], inner := sleep d (inner p)\<rparr>"

definition backoff :: "int \<Rightarrow> nat \<Rightarrow> int list" where
  "backoff delay n = map (\<lambda>k. delay * 2 ^ k) [0..<n]"

section \<open>Doubles\<close>

text \<open>
  The one piece of arithmetic in the service is \<^verbatim>\<open>Math.floor(Math.random() * 40) + 60\<close>, on
  doubles. \<open>to_double\<close> is the rounding of IEEE 754 binary64, to nearest with ties to even:
  for a positive \<open>a\<close> in the binade \<open>2 powi e \<le> a < 2 powi (e + 1)\<close> the spacing of the doubles is
  \<open>2 powi (e - 52)\<close>, and \<open>2 powi (- 1074)\<close> below the normal range; a result of \<open>2 powi 1024\<close>
  or more is an infinity, and a negative value that rounds to zero is negative zero.
\<close>

definition round_even :: "rat \<Rightarrow> int" where
  "round_even y =
     (let f = \<lfloor>y\<rfloor>; r = y - of_int f
      in if r < 1 / 2 then f else if 1 / 2 < r then f + 1 else if even f then f else f + 1)"

text \<open>For a positive \<open>a\<close>, the \<open>e\<close> with \<open>2 powi e \<le> a < 2 powi (e + 1)\<close>.\<close>

definition ilog2 :: "rat \<Rightarrow> int" where
  "ilog2 a =
     (let (p, q) = quotient_of a; d = bitlen p - bitlen q
      in if 2 powi d \<le> a then d else d - 1)"

definition to_double :: "rat \<Rightarrow> number" where
  "to_double x =
     (if x = 0 then Finite 0
      else
        (let a = \<bar>x\<bar>;
             e = max (ilog2 a) (- 1022);
             ulp = 2 powi (e - 52);
             d = of_int (round_even (a / ulp)) * ulp
         in if 2 powi 1024 \<le> d then (if 0 < x then PosInfinity else NegInfinity)
            else if d = 0 \<and> x < 0 then NegZero
            else Finite (sgn x * d)))"

text \<open>
  \<^verbatim>\<open>Math.floor(random * 40) + 60\<close>: the product is rounded, the floor is exact, the sum is
  rounded; the floor of negative zero is negative zero, and that plus 60 is 60.
\<close>

definition mock_score :: "rat \<Rightarrow> number" where
  "mock_score random =
     (case to_double (random * 40) of
        Finite d \<Rightarrow> to_double (of_int \<lfloor>d\<rfloor> + 60)
      | NegZero \<Rightarrow> to_double 60
      | PosInfinity \<Rightarrow> PosInfinity
      | NegInfinity \<Rightarrow> NegInfinity)"

section \<open>The screening service\<close>

subsection \<open>Inputs, requests and the environment\<close>

datatype AiProvider = gemini | openai

datatype source = local | sharepoint

text \<open>
  \<^verbatim>\<open>FileInput\<close>: of the \<^verbatim>\<open>File\<close> object only the name is read, so \<open>file\<close> is the name of the
  file, or \<open>None\<close> for \<^verbatim>\<open>null\<close>.
\<close>

record FileInput =
  "file" :: "string option"
  base64 :: "string option"
  mimeType :: string
  source :: "source option"

text \<open>What is sent to a provider: the parts of a Gemini request, the messages of an OpenAI one.\<close>

datatype part = Text string | InlineData string "string option"

datatype role = system | user

datatype request =
    generateContent string "part list"
  | chat_completions_create string "(role \<times> string) list"

text \<open>
  The world as the service changes it: the requests sent so far, the delays awaited through
  \<^verbatim>\<open>setTimeout\<close>, and the number of \<^verbatim>\<open>Math.random\<close> draws.
\<close>

record world =
  requests :: "request list"
  timeouts :: "int list"
  draws :: nat

text \<open>
  What the service reads from outside itself: the two credentials of \<^verbatim>\<open>process.env\<close>,
  \<^verbatim>\<open>window.atob\<close>, mammoth's \<^verbatim>\<open>extractRawText\<close>, the provider's answer to the \<open>n\<close>-th
  request (\<open>Inl\<close>: the SDK call rejects; \<open>Inr None\<close>: no text), the runtime's
  \<^verbatim>\<open>JSON.parse\<close> (\<open>None\<close>: it throws a \<^verbatim>\<open>SyntaxError\<close>, whose message is the engine's), and
  the \<open>n\<close>-th value of \<^verbatim>\<open>Math.random\<close>.
\<close>

record env =
  API_KEY :: "string option"
  OPENAI_API_KEY :: "string option"
  atob :: "string \<Rightarrow> exn + string"
  extractRawText :: "string \<Rightarrow> exn + string"
  respond :: "nat \<Rightarrow> request \<Rightarrow> exn + ustring option"
  JSON_parse :: "ustring \<Rightarrow> json option"
  syntax_error_message :: "ustring \<Rightarrow> string"
  Math_random :: "nat \<Rightarrow> rat"

definition setTimeout :: "int \<Rightarrow> world \<Rightarrow> world" where
  "setTimeout d w = w\<lparr>timeouts := timeouts w @ [d]\<rparr>"

definition send :: "env \<Rightarrow> request \<Rightarrow> world \<Rightarrow> (exn + ustring option) \<times> world" where
  "send env req w = (respond env (length (requests w)) req, w\<lparr>requests := requests w @ [req]\<rparr>)"

text \<open>Truthiness of a \<^verbatim>\<open>string | null | undefined\<close>, and \<^verbatim>\<open>!s.trim()\<close>.\<close>

definition truthy :: "string option \<Rightarrow> bool" where
  "truthy x = (case x of None \<Rightarrow> False | Some s \<Rightarrow> s \<noteq> [])"

definition js_space :: "char \<Rightarrow> bool" where
  "js_space c = ((of_char c :: nat) \<in> {9, 10, 11, 12, 13, 32, 160})"

definition blank :: "string \<Rightarrow> bool" where
  "blank s = list_all js_space s"

definition docx_mime :: string where
  "docx_mime = ''application/vnd.openxmlformats-officedocument.wordprocessingml.document''"

definition pdf_mime :: string where
  "pdf_mime = ''application/pdf''"

subsection \<open>Helpers\<close>

text \<open>\<^verbatim>\<open>extractTextFromDocx\<close> catches every failure and returns the empty string.\<close>

definition extractTextFromDocx :: "env \<Rightarrow> string \<Rightarrow> string" where
  "extractTextFromDocx env b64 =
     (case atob env b64 of
        Inl e \<Rightarrow> []
      | Inr binaryString \<Rightarrow>
          (case extractRawText env binaryString of Inl e \<Rightarrow> [] | Inr v \<Rightarrow> v))"

definition prompt_before :: string where
  \<open>prompt_before =
     ''\<newline>'' @
     ''    You are an expert HR Technical Recruiter and Resume Screener known for being extremely strict and precise.\<newline>'' @
     ''    \<newline>'' @
     ''    ''\<close>

definition prompt_after :: string where
  \<open>prompt_after =
     ''\<newline>'' @
     ''\<newline>'' @
     ''    Your goal is to screen the attached resume against the Job Description (JD) with high precision, verifying claims against evidence.\<newline>'' @
     ''\<newline>'' @
     ''    Steps:\<newline>'' @
     ''    1. **Analyze the JD**: Identify the critical "Must-Have" technical skills, required years of experience, and essential soft skills. Distinguish these from "Nice-to-Have" skills.\<newline>'' @
     ''    2. **Analyze the Resume**: Extract candidate details and skills. \<newline>'' @
     ''       - NOTE: If the resume content appears to be invalid, random text, or not a resume at all, set 'recommendation' to "Not a Match", 'overallMatchScore' to 0, and 'candidateName' to "Unknown/Invalid File".\<newline>'' @
     ''    3. **Strict Comparison (Evidence-Based)**: \<newline>'' @
     ''       - **Context Matters**: Do not just keyword match. A candidate listing "Python" in a skills section is different from one who used "Python" to build a backend API in their last job.\<newline>'' @
     ''       - **Penalty for Missing Must-Haves**: If a core requirement (e.g., "5+ years of Java") is missing or the candidate only has 1 year, the score for that skill must be low (<40), and the overall match score must be significantly impacted.\<newline>'' @
     ''       - **Keyword Stuffing**: Assign low scores (30-50) if a skill is only found in a "Skills" list without context in the "Experience" section.\<newline>'' @
     ''       - **Synonyms**: 'AWS' matches 'Amazon Web Services'; 'React' matches 'React.js'.\<newline>'' @
     ''    4. **Recommendation Logic**:\<newline>'' @
     ''       - **Strong Match**: Candidate meets ALL "Must-Have" requirements with strong evidence in recent roles.\<newline>'' @
     ''       - **Potential Match**: Meets most "Must-Haves" but might lack specific domain knowledge or full years of experience.\<newline>'' @
     ''       - **Weak Match**: Missing one or more critical "Must-Have" skills, or experience is significantly lower than required.\<newline>'' @
     ''       - **Not a Match**: Fundamental mismatch (e.g., wrong tech stack, junior applying for architect role, missing multiple core skills).\<newline>'' @
     ''\<newline>'' @
     ''    Task output:\<newline>'' @
     ''    1. Extract candidate's Name, Location, Experience, Role, Email.\<newline>'' @
     ''    2. Extract Phone: **Strictly remove any international country codes** (e.g., +1, +91, 0044). Return only the local 10-digit (or standard local length) number. Format as (XXX) XXX-XXXX if it is a US number, or standard local format otherwise.\<newline>'' @
     ''    3. Extract FULL resume text.\<newline>'' @
     ''    4. 'skillsAnalysis': List the *JD Requirements* you identified in Step 1.\<newline>'' @
     ''       - Score strictly based on evidence found in the 'Experience' or 'Projects' sections, not just the 'Skills' list.\<newline>'' @
     ''       - In 'evidence', quote the specific text. If no evidence exists in experience/projects, state "Listed in skills only" or "No evidence found".\<newline>'' @
     ''    5. 'overallMatchScore': A weighted average. Weight "Must-Have" skills double.\<newline>'' @
     ''    6. 'suitableRoles': 3-5 roles this candidate fits.\<newline>'' @
     ''    7. 'technicalSkills' & 'functionalSkills': Comprehensive lists.\<newline>'' @
     ''\<newline>'' @
     ''    Be extremely critical. It is better to reject a weak candidate than to falsely recommend them.\<newline>''\<close>

definition jsonStructurePrompt :: string where
  \<open>jsonStructurePrompt =
     ''\<newline>'' @
     ''        IMPORTANT: Your response MUST be valid JSON adhering exactly to this structure:\<newline>'' @
     ''        {\<newline>'' @
     ''          "candidateName": "string",\<newline>'' @
     ''          "candidateLocation": "string",\<newline>'' @
     ''          "candidateExperience": "string",\<newline>'' @
     ''          "currentRole": "string",\<newline>'' @
     ''          "email": "string",\<newline>'' @
     ''          "phone": "string",\<newline>'' @
     ''          "resumeText": "string",\<newline>'' @
     ''          "overallMatchScore": 0,\<newline>'' @
     ''          "candidateSummary": "string",\<newline>'' @
     ''          "skillsAnalysis": [{ "skill": "string", "score": 0, "reasoning": "string", "evidence": "string" }],\<newline>'' @
     ''          "strengths": ["string"],\<newline>'' @
     ''          "weaknesses": ["string"],\<newline>'' @
     ''          "recommendation": "Strong Match" | "Potential Match" | "Weak Match" | "Not a Match",\<newline>'' @
     ''          "suitableRoles": ["string"],\<newline>'' @
     ''          "technicalSkills": ["string"],\<newline>'' @
     ''          "functionalSkills": ["string"]\<newline>'' @
     ''        }\<newline>'' @
     ''        ''\<close>

definition getCommonPrompt :: "string \<Rightarrow> string" where
  "getCommonPrompt jdContext = prompt_before @ jdContext @ prompt_after"

text \<open>
  \<^verbatim>\<open>generateMockResult\<close>: the name is the file name without a final \<^verbatim>\<open>.pdf\<close> or \<^verbatim>\<open>.docx\<close>
  and with every underscore turned into a space; the score is
  \<^verbatim>\<open>Math.floor(Math.random() * 40) + 60\<close>.
\<close>

definition strip_extension :: "string \<Rightarrow> string" where
  "strip_extension fileName =
     (if drop (length fileName - 4) fileName = ''.pdf'' then take (length fileName - 4) fileName
      else if drop (length fileName - 5) fileName = ''.docx'' then take (length fileName - 5) fileName
      else fileName)"

definition JStrings :: "string list \<Rightarrow> json" where
  "JStrings xs = JArray (map (\<lambda>x. JString (units x)) xs)"

definition skill_entry :: "string \<Rightarrow> number \<Rightarrow> string \<Rightarrow> string \<Rightarrow> json" where
  "skill_entry sk sc re ev =
     JObject [(units ''skill'', JString (units sk)), (units ''score'', JNumber sc),
              (units ''reasoning'', JString (units re)), (units ''evidence'', JString (units ev))]"

definition generateMockResult :: "rat \<Rightarrow> string \<Rightarrow> json" where
  "generateMockResult random fileName =
     JObject
      [(units ''candidateName'',
          JString (units (map (\<lambda>c. if c = CHR ''_'' then CHR '' '' else c) (strip_extension fileName)))),
       (units ''candidateLocation'', JString (units ''SharePoint Import (Demo)'')),
       (units ''candidateExperience'', JString (units ''5+ years'')),
       (units ''currentRole'', JString (units ''Software Engineer'')),
       (units ''email'', JString (units ''demo.candidate@example.com'')),
       (units ''phone'', JString (units ''555-0123'')),
       (units ''resumeText'', JString (units ''This is a simulated resume text for demonstration purposes as the file was imported from a mock SharePoint source.'')),
       (units ''overallMatchScore'', JNumber (mock_score random)),
       (units ''candidateSummary'', JString (units ''This is a generated summary for the SharePoint demo. In a production environment, the file content would be fetched via Microsoft Graph API and analyzed by the AI.'')),
       (units ''skillsAnalysis'',
          JArray
           [skill_entry ''React'' (Finite 85) ''Demonstrated strong proficiency in simulated context.''
              ''Built complex UIs'',
            skill_entry ''TypeScript'' (Finite 75) ''Good understanding implied by role.''
              ''Used in recent projects'',
            skill_entry ''Cloud Platforms'' (Finite 60) ''Mentioned but lacks specific details in this mock.''
              ''Deployed apps'']),
       (units ''strengths'', JStrings [''Quick Learner'', ''Team Player'', ''Technical adaptability'']),
       (units ''weaknesses'', JStrings [''Mock data lacks depth'']),
       (units ''recommendation'', JString (units ''Potential Match'')),
       (units ''suitableRoles'', JStrings [''Frontend Developer'', ''Full Stack Engineer'']),
       (units ''technicalSkills'', JStrings [''JavaScript'', ''React'', ''Node.js'', ''Git'']),
       (units ''functionalSkills'', JStrings [''Communication'', ''Agile''])]"

subsection \<open>\<^verbatim>\<open>screenResume\<close>\<close>

text \<open>
  The job description context (\<^verbatim>\<open>// Common: Prepare JD Context\<close>). A job description file
  counts only when its \<^verbatim>\<open>base64\<close> is truthy; otherwise the text is used, and without either
  the call fails before anything is sent.
\<close>

definition attached :: "FileInput option \<Rightarrow> (FileInput \<times> string) option" where
  "attached jobDescriptionFile =
     (case jobDescriptionFile of
        None \<Rightarrow> None
      | Some f \<Rightarrow> (case base64 f of
                    None \<Rightarrow> None
                  | Some b \<Rightarrow> if b = [] then None else Some (f, b)))"

definition jdContext_of :: "env \<Rightarrow> AiProvider \<Rightarrow> string \<Rightarrow> FileInput option \<Rightarrow> exn + string" where
  "jdContext_of env provider jobDescriptionText jobDescriptionFile =
     (let jdContext = ''Job Description Context:\<newline>''
      in case attached jobDescriptionFile of
           Some (f, b) \<Rightarrow>
             if mimeType f = docx_mime then Inr (jdContext @ extractTextFromDocx env b)
             else if provider = gemini then
               Inr (jdContext @ ''(See attached Job Description document)'')
             else if mimeType f = pdf_mime then
               Inr (jdContext @ ''(Attached JD is a PDF - Please copy text for better results)'')
             else (case atob env b of
                     Inl e \<Rightarrow> Inl e
                   | Inr decoded \<Rightarrow> Inr (jdContext @ decoded))
         | None \<Rightarrow>
             if \<not> blank jobDescriptionText then Inr (jdContext @ jobDescriptionText)
             else Inl (Error ''No Job Description provided.''))"

text \<open>
  The response-parsing step of both providers:
  \<^verbatim>\<open>if (!text) throw new Error(...); return JSON.parse(text) as ScreeningResult;\<close>
\<close>

definition parse_response :: "env \<Rightarrow> string \<Rightarrow> ustring option \<Rightarrow> exn + json" where
  "parse_response env empty_message text =
     (case text of
        None \<Rightarrow> Inl (Error empty_message)
      | Some t \<Rightarrow>
          if t = [] then Inl (Error empty_message)
          else (case JSON_parse env t of
                  None \<Rightarrow> Inl (Exn ''SyntaxError'' (syntax_error_message env t))
                | Some v \<Rightarrow> Inr v))"

text \<open>
  \<^verbatim>\<open>// --- Provider: Gemini ---\<close> The parts of the request: the resume (the extracted text of
  a word-processing document, any other media type inline under its declared type), the job
  description file inline when it is a PDF, and the prompt. \<open>data\<close> is \<^verbatim>\<open>resume.base64!\<close>.
\<close>

definition gemini_parts ::
  "env \<Rightarrow> FileInput \<Rightarrow> string \<Rightarrow> FileInput option \<Rightarrow> string \<Rightarrow> exn + part list" where
  "gemini_parts env resume data jobDescriptionFile jdContext =
     (let resumePart =
            (if mimeType resume = docx_mime then
               (let extractedText = extractTextFromDocx env data
                in if extractedText = [] \<or> blank extractedText then Inl (Error ''Empty DOCX'')
                   else Inr (Text (''RESUME TEXT CONTENT:\<newline>'' @ extractedText)))
             else Inr (InlineData (mimeType resume) (Some data)));
          jdPart =
            (case jobDescriptionFile of
               None \<Rightarrow> []
             | Some f \<Rightarrow> if mimeType f = pdf_mime then [InlineData (mimeType f) (base64 f)] else [])
      in case resumePart of
           Inl e \<Rightarrow> Inl e
         | Inr p \<Rightarrow> Inr ([p] @ jdPart @ [Text (getCommonPrompt jdContext)]))"

definition gemini_operation ::
  "env \<Rightarrow> FileInput \<Rightarrow> string \<Rightarrow> FileInput option \<Rightarrow> string \<Rightarrow> string \<Rightarrow> world
     \<Rightarrow> (exn + json) \<times> world" where
  "gemini_operation env resume data jobDescriptionFile modelName jdContext w =
     (if \<not> truthy (API_KEY env)
      then (Inl (Error ''Gemini API Key missing in environment variables.''), w)
      else case gemini_parts env resume data jobDescriptionFile jdContext of
             Inl e \<Rightarrow> (Inl e, w)
           | Inr parts \<Rightarrow>
               (case send env (generateContent modelName parts) w of
                  (Inl e, w1) \<Rightarrow> (Inl e, w1)
                | (Inr text, w1) \<Rightarrow> (parse_response env ''Empty response from Gemini'' text, w1)))"

text \<open>
  \<^verbatim>\<open>// --- Provider: OpenAI ---\<close> The text of the resume: a PDF is refused, a word-processing
  document is extracted, anything else is decoded with \<^verbatim>\<open>atob\<close>; blank text is refused.
\<close>

definition openai_resume_text :: "env \<Rightarrow> FileInput \<Rightarrow> string \<Rightarrow> exn + string" where
  "openai_resume_text env resume data =
     (let resumeTextContent =
            (if mimeType resume = pdf_mime then
               Inl (Error ''OpenAI mode currently supports DOCX and Text files only. Please use Gemini for PDF resumes.'')
             else if mimeType resume = docx_mime then Inr (extractTextFromDocx env data)
             else atob env data)
      in case resumeTextContent of
           Inl e \<Rightarrow> Inl e
         | Inr t \<Rightarrow>
             if blank t
             then Inl (Error ''Could not extract text from resume for OpenAI processing.'')
             else Inr t)"

definition openai_messages :: "string \<Rightarrow> string \<Rightarrow> (role \<times> string) list" where
  "openai_messages jdContext resumeTextContent =
     [(system, getCommonPrompt jdContext @ ''\<newline>\<newline>'' @ jsonStructurePrompt),
      (user, ''Here is the resume content:\<newline>\<newline>'' @ resumeTextContent)]"

definition openai_operation ::
  "env \<Rightarrow> FileInput \<Rightarrow> string \<Rightarrow> string \<Rightarrow> string \<Rightarrow> world \<Rightarrow> (exn + json) \<times> world" where
  "openai_operation env resume data modelName jdContext w =
     (if \<not> truthy (OPENAI_API_KEY env)
      then (Inl (Error ''OpenAI API Key missing. Please configure OPENAI_API_KEY in backend/environment variables.''), w)
      else case openai_resume_text env resume data of
             Inl e \<Rightarrow> (Inl e, w)
           | Inr resumeTextContent \<Rightarrow>
               (case send env (chat_completions_create modelName
                                 (openai_messages jdContext resumeTextContent)) w of
                  (Inl e, w1) \<Rightarrow> (Inl e, w1)
                | (Inr content, w1) \<Rightarrow> (parse_response env ''No response from OpenAI'' content, w1)))"

text \<open>
  The operation handed to \<^verbatim>\<open>retryOperation\<close>. \<^verbatim>\<open>AiProvider\<close> has the two values only, so
  the closing \<^verbatim>\<open>throw new Error(`Unsupported provider: ${provider}`)\<close> is not reached.
\<close>

definition operation_of ::
  "env \<Rightarrow> FileInput \<Rightarrow> string \<Rightarrow> FileInput option \<Rightarrow> string \<Rightarrow> AiProvider \<Rightarrow> string \<Rightarrow> world
     \<Rightarrow> (exn + json) \<times> world" where
  "operation_of env resume data jobDescriptionFile modelName provider jdContext =
     (case provider of
        gemini \<Rightarrow> gemini_operation env resume data jobDescriptionFile modelName jdContext
      | openai \<Rightarrow> openai_operation env resume data modelName jdContext)"

text \<open>
  \<^verbatim>\<open>screenResume\<close>: the demonstration path for a SharePoint item carrying the reserved marker,
  the check of the resume content, the job description context, and the provider operation
  under \<^verbatim>\<open>retryOperation\<close> with its default arguments.
\<close>

definition MOCK_BASE64 :: string where
  "MOCK_BASE64 = ''MOCK_BASE64_CONTENT_FOR_DEMO_ONLY''"

definition screenResume ::
  "env \<Rightarrow> FileInput \<Rightarrow> string \<Rightarrow> FileInput option \<Rightarrow> string \<Rightarrow> AiProvider \<Rightarrow> world
     \<Rightarrow> (exn + json) \<times> world" where
  "screenResume env resume jobDescriptionText jobDescriptionFile modelName provider w =
     (if source resume = Some sharepoint \<and> base64 resume = Some MOCK_BASE64 then
        (let w1 = setTimeout 1500 w;
             fileName = (case file resume of
                           None \<Rightarrow> ''Candidate''
                         | Some n \<Rightarrow> if n = [] then ''Candidate'' else n)
         in (Inr (generateMockResult (Math_random env (draws w1)) fileName),
             w1\<lparr>draws := Suc (draws w1)\<rparr>))
      else
        (case base64 resume of
           None \<Rightarrow> (Inl (Error ''Resume file content is missing.''), w)
         | Some data \<Rightarrow>
             if data = [] then (Inl (Error ''Resume file content is missing.''), w)
             else
               (case jdContext_of env provider jobDescriptionText jobDescriptionFile of
                  Inl e \<Rightarrow> (Inl e, w)
                | Inr jdContext \<Rightarrow>
                    retryOperation setTimeout
                      (operation_of env resume data jobDescriptionFile modelName provider jdContext)
                      2 1000 w)))"

section \<open>The batch driver\<close>

text \<open>Decimal digits of a number, for \<^verbatim>\<open>`Resume ${i+1}`\<close>, and \<^verbatim>\<open>Array.prototype.join\<close>.\<close>

function show_nat :: "nat \<Rightarrow> string" where
  "show_nat n =
     (if n < 10 then [char_of (48 + n)] else show_nat (n div 10) @ [char_of (48 + n mod 10)])"
  by pat_completeness auto
termination
  by (relation "measure id") auto

declare show_nat.simps [simp del]

fun join :: "string \<Rightarrow> string list \<Rightarrow> string" where
  "join sep [] = []"
| "join sep [x] = x"
| "join sep (x # y # ys) = x @ sep @ join sep (y # ys)"

datatype JobDescriptionMode = TEXT | FILE

text \<open>
  The loop of \<^verbatim>\<open>handleScreening\<close> over \<^verbatim>\<open>resumes\<close> from index \<open>i\<close>: a result is pushed to
  \<^verbatim>\<open>newResults\<close>, a failure is caught and pushed to \<^verbatim>\<open>failedFiles\<close> as
  \<^verbatim>\<open>`${fileName} (${e.message})`\<close>.
\<close>

definition fileName_of :: "nat \<Rightarrow> FileInput \<Rightarrow> string" where
  "fileName_of i currentResume =
     (case file currentResume of
        None \<Rightarrow> ''Resume '' @ show_nat (i + 1)
      | Some n \<Rightarrow> if n = [] then ''Resume '' @ show_nat (i + 1) else n)"

definition failure_entry :: "string \<Rightarrow> exn \<Rightarrow> string" where
  "failure_entry fileName e = fileName @ '' ('' @ message e @ '')''"

fun screening_loop ::
  "env \<Rightarrow> string \<Rightarrow> FileInput option \<Rightarrow> string \<Rightarrow> AiProvider \<Rightarrow> nat \<Rightarrow> FileInput list
     \<Rightarrow> json list \<Rightarrow> string list \<Rightarrow> world \<Rightarrow> (json list \<times> string list) \<times> world" where
  "screening_loop env jdText jd selectedModel provider i [] newResults failedFiles w =
     ((newResults, failedFiles), w)"
| "screening_loop env jdText jd selectedModel provider i (currentResume # rest)
      newResults failedFiles w =
     (case screenResume env currentResume jdText jd selectedModel provider w of
        (Inr analysis, w1) \<Rightarrow>
          screening_loop env jdText jd selectedModel provider (i + 1) rest
            (newResults @ [analysis]) failedFiles w1
      | (Inl e, w1) \<Rightarrow>
          screening_loop env jdText jd selectedModel provider (i + 1) rest
            newResults (failedFiles @ [failure_entry (fileName_of i currentResume) e]) w1)"

text \<open>
  \<^verbatim>\<open>handleScreening\<close>: \<open>Inl\<close> is the text that \<^verbatim>\<open>setError\<close> receives, \<open>Inr\<close> the list given
  to \<^verbatim>\<open>setResults\<close> together with \<^verbatim>\<open>failedFiles\<close>, which the closing alert shows.
\<close>

definition all_failed_message :: "string list \<Rightarrow> string" where
  "all_failed_message failedFiles =
     ''Failed to process all resumes. Issues:\<newline>'' @ join ''\<newline>'' failedFiles"

definition handleScreening ::
  "env \<Rightarrow> FileInput list \<Rightarrow> JobDescriptionMode \<Rightarrow> string \<Rightarrow> FileInput \<Rightarrow> string \<Rightarrow> AiProvider
     \<Rightarrow> world \<Rightarrow> (string + json list \<times> string list) \<times> world" where
  "handleScreening env resumes jdMode jdText jdFile selectedModel provider w =
     (if resumes = [] then (Inl ''Please upload or import at least one resume.'', w)
      else if jdMode = TEXT \<and> blank jdText then (Inl ''Please enter the Job Description text.'', w)
      else if jdMode = FILE \<and> file jdFile = None
      then (Inl ''Please upload a Job Description file.'', w)
      else
        (case screening_loop env jdText (if jdMode = FILE then Some jdFile else None)
                selectedModel provider 0 resumes [] [] w of
           ((newResults, failedFiles), w1) \<Rightarrow>
             if newResults = [] \<and> failedFiles \<noteq> [] then (Inl (all_failed_message failedFiles), w1)
             else if newResults = [] then (Inl ''No results generated.'', w1)
             else (Inr (newResults, failedFiles), w1)))"

section \<open>Results in the user interface\<close>

text \<open>
  The components are typed against the interface \<^verbatim>\<open>ScreeningResult\<close>; this section models
  values of that type. A result is a JavaScript object: the shortlist holds references to
  results, \<open>heap\<close> gives the object behind a reference, and no code writes to a result.
\<close>

datatype Recommendation = Strong_Match | Potential_Match | Weak_Match | Not_a_Match

record SkillAnalysis =
  skill :: string
  score :: rat
  reasoning :: string
  evidence :: string

record ScreeningResult =
  candidateName :: string
  candidateLocation :: string
  candidateExperience :: string
  currentRole :: string
  email :: "string option"
  phone :: "string option"
  resumeText :: string
  overallMatchScore :: rat
  candidateSummary :: string
  skillsAnalysis :: "SkillAnalysis list"
  strengths :: "string list"
  weaknesses :: "string list"
  recommendation :: Recommendation
  suitableRoles :: "string list"
  technicalSkills :: "string list"
  functionalSkills :: "string list"

type_synonym ref = nat

subsection \<open>The shortlist\<close>

text \<open>
  \<^verbatim>\<open>
  setShortlist(prev => {
      const exists = prev.some(c => c.candidateName === candidate.candidateName
                                 && c.email === candidate.email);
      if (exists) { alert(...); return prev; }
      alert(...);
      return [...prev, candidate];
  });
  \<close>
  and \<^verbatim>\<open>setShortlist(prev => prev.filter(c => c !== candidate))\<close> once the user has confirmed.
\<close>

definition handleShortlist :: "(ref \<Rightarrow> ScreeningResult) \<Rightarrow> ref \<Rightarrow> ref list \<Rightarrow> ref list" where
  "handleShortlist heap candidate prev =
     (let exists = list_ex (\<lambda>c. candidateName (heap c) = candidateName (heap candidate)
                               \<and> email (heap c) = email (heap candidate)) prev
      in if exists then prev else prev @ [candidate])"

definition handleRemoveFromShortlist :: "bool \<Rightarrow> ref \<Rightarrow> ref list \<Rightarrow> ref list" where
  "handleRemoveFromShortlist confirmed candidate prev =
     (if confirmed then filter (\<lambda>c. c \<noteq> candidate) prev else prev)"

datatype action = Shortlist ref | Remove ref bool

fun act :: "(ref \<Rightarrow> ScreeningResult) \<Rightarrow> ref list \<Rightarrow> action \<Rightarrow> ref list" where
  "act heap prev (Shortlist candidate) = handleShortlist heap candidate prev"
| "act heap prev (Remove candidate confirmed) = handleRemoveFromShortlist confirmed candidate prev"

definition shortlist_after :: "(ref \<Rightarrow> ScreeningResult) \<Rightarrow> action list \<Rightarrow> ref list" where
  "shortlist_after heap actions = foldl (act heap) [] actions"

definition identity_of :: "ScreeningResult \<Rightarrow> string \<times> string option" where
  "identity_of c = (candidateName c, email c)"

subsection \<open>The table export\<close>

text \<open>
  \<^verbatim>\<open>TableView.handleExportCSV\<close> up to the text placed in the \<^verbatim>\<open>Blob\<close>. A cell is
  \<^verbatim>\<open>v ? `"${v.replace(/"/g, '""')}"` : '""'\<close>.
\<close>

definition double_quotes :: "string \<Rightarrow> string" where
  "double_quotes s = concat (map (\<lambda>c. if c = CHR 0x22 then [CHR 0x22, CHR 0x22] else [c]) s)"

definition cell :: "string option \<Rightarrow> string" where
  "cell v =
     (case v of
        None \<Rightarrow> [CHR 0x22, CHR 0x22]
      | Some x \<Rightarrow> if x = [] then [CHR 0x22, CHR 0x22]
                  else [CHR 0x22] @ double_quotes x @ [CHR 0x22])"

definition headers :: "string list" where
  "headers = [''Candidate Name'', ''Total Experience'', ''Email'', ''Contact Number'']"

definition csv_row :: "ScreeningResult \<Rightarrow> string" where
  "csv_row r =
     join '','' [cell (Some (candidateName r)), cell (Some (candidateExperience r)),
                 cell (email r), cell (phone r)]"

definition handleExportCSV :: "ScreeningResult list \<Rightarrow> string" where
  "handleExportCSV results = join ''\<newline>'' (join '','' headers # map csv_row results)"

text \<open>The value a cell stands for (a missing value is written like the empty string).\<close>

definition text_of :: "string option \<Rightarrow> string" where
  "text_of v = (case v of None \<Rightarrow> [] | Some x \<Rightarrow> x)"

definition csv_fields :: "ScreeningResult \<Rightarrow> string list" where
  "csv_fields r = [candidateName r, candidateExperience r, text_of (email r), text_of (phone r)]"

text \<open>
  A reader of comma-separated text after RFC 4180, to read the export back: a field is bare
  or enclosed in double quotes; inside quotes a doubled quote is one quote and commas and line
  breaks are data; a record ends at a line feed, at a carriage return followed by a line feed,
  or at the end of the text.
\<close>

datatype csv_state = FieldStart | Bare | Quoted | QuoteSeen | AfterCR

fun csv_read ::
  "csv_state \<Rightarrow> string \<Rightarrow> string list \<Rightarrow> string list list \<Rightarrow> string \<Rightarrow> string list list option"
where
  "csv_read st fld row rows [] =
     (if st = Quoted \<or> st = AfterCR then None
      else if st = FieldStart \<and> row = [] then Some rows
      else Some (rows @ [row @ [fld]]))"
| "csv_read st fld row rows (c # cs) =
     (case st of
        Quoted \<Rightarrow>
          if c = CHR 0x22 then csv_read QuoteSeen fld row rows cs
          else csv_read Quoted (fld @ [c]) row rows cs
      | AfterCR \<Rightarrow>
          if c = CHR 0x0A then csv_read FieldStart [] [] (rows @ [row @ [fld]]) cs else None
      | _ \<Rightarrow>
          if c = CHR '','' then csv_read FieldStart [] (row @ [fld]) rows cs
          else if c = CHR 0x0A then csv_read FieldStart [] [] (rows @ [row @ [fld]]) cs
          else if c = CHR 0x0D then csv_read AfterCR fld row rows cs
          else if c = CHR 0x22 then
            (if st = FieldStart then csv_read Quoted [] row rows cs
             else if st = QuoteSeen then csv_read Quoted (fld @ [c]) row rows cs
             else None)
          else if st = QuoteSeen then None
          else csv_read Bare (fld @ [c]) row rows cs)"

definition csv_parse :: "string \<Rightarrow> string list list option" where
  "csv_parse s = csv_read FieldStart [] [] [] s"

section \<open>Predicates of the claims\<close>

text \<open>
  A score as the specification wants it: a number that is an integer between 0 and 100
  (negative zero is the integer zero; an infinity is not an integer).
  A result has its scores in range when \<^verbatim>\<open>overallMatchScore\<close> is such a number and so is the
  \<^verbatim>\<open>score\<close> of every entry of \<^verbatim>\<open>skillsAnalysis\<close>.
\<close>

definition score_in_range :: "json option \<Rightarrow> bool" where
  "score_in_range v =
     (case v of
        Some (JNumber (Finite q)) \<Rightarrow> of_int \<lfloor>q\<rfloor> = q \<and> 0 \<le> q \<and> q \<le> 100
      | Some (JNumber NegZero) \<Rightarrow> True
      | _ \<Rightarrow> False)"

definition scores_in_range :: "json \<Rightarrow> bool" where
  "scores_in_range r =
     (score_in_range (js_get ''overallMatchScore'' r)
      \<and> (case js_get ''skillsAnalysis'' r of
            Some (JArray entries) \<Rightarrow> list_all (\<lambda>e. score_in_range (js_get ''score'' e)) entries
          | _ \<Rightarrow> True))"

text \<open>The \<^verbatim>\<open>score\<close> properties of the entries of \<^verbatim>\<open>skillsAnalysis\<close>, in order.\<close>

definition skill_scores :: "json \<Rightarrow> json option list" where
  "skill_scores r =
     (case js_get ''skillsAnalysis'' r of
        Some (JArray entries) \<Rightarrow> map (js_get ''score'') entries
      | _ \<Rightarrow> [])"

definition recommendations :: "string list" where
  "recommendations = [''Strong Match'', ''Potential Match'', ''Weak Match'', ''Not a Match'']"

definition recommendation_in_enum :: "json \<Rightarrow> bool" where
  "recommendation_in_enum r =
     (case js_get ''recommendation'' r of
        Some (JString x) \<Rightarrow> x \<in> set (map units recommendations)
      | _ \<Rightarrow> False)"

text \<open>The demonstration path of \<^verbatim>\<open>screenResume\<close>.\<close>

definition is_mock :: "FileInput \<Rightarrow> bool" where
  "is_mock resume = (source resume = Some sharepoint \<and> base64 resume = Some MOCK_BASE64)"

section \<open>Concrete inputs\<close>

text \<open>
  An environment and inputs on which the definitions are evaluated: both credentials are
  set, \<^verbatim>\<open>atob\<close> is given on the three encoded contents it is applied to below, mammoth
  finds no document in what it is handed, every draw of \<^verbatim>\<open>Math.random\<close> is one half, the
  provider answers every request with \<open>reply_text\<close>, and \<^verbatim>\<open>JSON.parse\<close> is given on that one
  text, which it reads as \<open>reply_value\<close>.
\<close>

definition reply_text :: ustring where
  \<open>reply_text = units ''{"candidateName": "Jane Doe", "recommendation": "Maybe", "overallMatchScore": 150, "skillsAnalysis": [{"skill": "Java", "score": -5}]}''\<close>

definition reply_value :: json where
  "reply_value =
     JObject [(units ''candidateName'', JString (units ''Jane Doe'')),
              (units ''recommendation'', JString (units ''Maybe'')),
              (units ''overallMatchScore'', JNumber (Finite 150)),
              (units ''skillsAnalysis'',
                 JArray [JObject [(units ''skill'', JString (units ''Java'')),
                                  (units ''score'', JNumber (Finite (- 5)))]])]"

definition demo_env :: env where
  "demo_env =
     \<lparr>API_KEY = Some ''key-1'', OPENAI_API_KEY = Some ''key-2'',
      atob = (\<lambda>b. if b = ''SmFuZSBEb2U='' then Inr ''Jane Doe''
                   else if b = ''UEsDBBQABgAIAAAAIQ==''
                   then Inr [CHR ''P'', CHR ''K'', CHR 0x03, CHR 0x04, CHR 0x14, CHR 0x00, CHR 0x06,
                             CHR 0x00, CHR 0x08, CHR 0x00, CHR 0x00, CHR 0x00, CHR ''!'']
                   else if b = ''iVBORw0KGgo=''
                   then Inr [CHR 0x89, CHR ''P'', CHR ''N'', CHR ''G'', CHR 0x0D, CHR 0x0A, CHR 0x1A,
                             CHR 0x0A]
                   else Inl (Exn ''InvalidCharacterError''
                              ''The string to be decoded is not correctly encoded.'')),
      extractRawText = (\<lambda>b. Inl (Error ''Could not find the body element'')),
      respond = (\<lambda>n req. Inr (Some reply_text)),
      JSON_parse = (\<lambda>t. if t = reply_text then Some reply_value else None),
      syntax_error_message = (\<lambda>t. ''Unexpected end of JSON input''),
      Math_random = (\<lambda>n. 1 / 2)\<rparr>"

definition no_key_env :: env where
  "no_key_env = demo_env\<lparr>API_KEY := None, OPENAI_API_KEY := Some []\<rparr>"

definition world0 :: world where
  "world0 = \<lparr>requests = [], timeouts = [], draws = 0\<rparr>"

definition no_file :: FileInput where
  "no_file = \<lparr>file = None, base64 = None, mimeType = [], source = None\<rparr>"

definition text_resume :: FileInput where
  "text_resume = \<lparr>file = Some ''jane.txt'', base64 = Some ''SmFuZSBEb2U='',
                   mimeType = ''text/plain'', source = Some local\<rparr>"

definition image_resume :: FileInput where
  "image_resume = \<lparr>file = Some ''scan.png'', base64 = Some ''iVBORw0KGgo='',
                    mimeType = ''image/png'', source = Some local\<rparr>"

definition pdf_resume :: FileInput where
  "pdf_resume = \<lparr>file = Some ''jane.pdf'', base64 = Some ''JVBERi0xLjQK'',
                  mimeType = pdf_mime, source = Some local\<rparr>"

definition docx_resume :: FileInput where
  "docx_resume = \<lparr>file = Some ''jane.docx'', base64 = Some ''UEsDBBQABgAIAAAAIQ=='',
                   mimeType = docx_mime, source = Some local\<rparr>"

definition mock_resume :: FileInput where
  "mock_resume = \<lparr>file = Some ''Jane_Doe.pdf'', base64 = Some MOCK_BASE64,
                   mimeType = pdf_mime, source = Some sharepoint\<rparr>"

definition pdf_jd :: FileInput where
  "pdf_jd = \<lparr>file = Some ''role.pdf'', base64 = Some ''JVBERi0xLjQK'',
              mimeType = pdf_mime, source = None\<rparr>"

section \<open>Properties of the retry helper\<close>

lemma retryOperation_success:
  "operation s = (Inr v, s1) \<Longrightarrow> retryOperation sleep operation retries delay s = (Inr v, s1)"
  by (subst retryOperation.simps) simp

lemma retryOperation_last:
  "operation s = (Inl e, s1) \<Longrightarrow> \<not> retries > 0 \<Longrightarrow>
   retryOperation sleep operation retries delay s = (Inl e, s1)"
  by (subst retryOperation.simps) simp

lemma retryOperation_again:
  "operation s = (Inl e, s1) \<Longrightarrow> retries > 0 \<Longrightarrow>
   retryOperation sleep operation retries delay s =
   retryOperation sleep operation (retries - 1) (delay * 2) (sleep delay s1)"
  by (subst retryOperation.simps) simp

lemma backoff_Suc: "backoff delay (Suc n) = delay # backoff (delay * 2) n"
proof -
  have "[0..<Suc n] = 0 # map Suc [0..<n]"
    by (simp add: upt_conv_Cons map_Suc_upt del: upt_Suc)
  then show ?thesis
    by (simp add: backoff_def comp_def mult.assoc)
qed

lemma probed_fails:
  assumes "isl (fst (operation (inner p)))"
  obtains e s1 where "operation (inner p) = (Inl e, s1)"
    and "probed operation p =
           (Inl e, p\<lparr>invocations := Suc (invocations p), raised := raised p @ [e], inner := s1\<rparr>)"
proof -
  obtain r s1 where rs: "operation (inner p) = (r, s1)"
    by (cases "operation (inner p)")
  with assms obtain e where "r = Inl e"
    by (cases r) auto
  with rs show thesis
    by (intro that [of e s1]) (simp_all add: probed_def)
qed

text \<open>
  The observer changes nothing: with it the run has the same outcome and leaves the
  operation's state as the run without it does.
\<close>

lemma probe_transparent:
  "n = nat retries \<Longrightarrow>
   fst (retryOperation (probe_sleep sleep) (probed operation) retries delay p) =
     fst (retryOperation sleep operation retries delay (inner p))
   \<and> inner (snd (retryOperation (probe_sleep sleep) (probed operation) retries delay p)) =
     snd (retryOperation sleep operation retries delay (inner p))"
proof (induction n arbitrary: retries delay p)
  case 0
  obtain r s1 where o: "operation (inner p) = (r, s1)" by (cases "operation (inner p)")
  from 0 have nr: "\<not> retries > 0" by simp
  show ?case
  proof (cases r)
    case (Inl e)
    with o have a: "operation (inner p) = (Inl e, s1)" by simp
    then have b: "probed operation p =
      (Inl e, p\<lparr>invocations := Suc (invocations p), raised := raised p @ [e], inner := s1\<rparr>)"
      by (simp add: probed_def)
    show ?thesis
      by (simp add: retryOperation_last [where operation = operation, OF a nr]
            retryOperation_last [where operation = "probed operation", OF b nr])
  next
    case (Inr v)
    with o have a: "operation (inner p) = (Inr v, s1)" by simp
    then have b: "probed operation p =
      (Inr v, p\<lparr>invocations := Suc (invocations p), raised := raised p, inner := s1\<rparr>)"
      by (simp add: probed_def)
    show ?thesis
      by (simp add: retryOperation_success [where operation = operation, OF a]
            retryOperation_success [where operation = "probed operation", OF b])
  qed
next
  case (Suc n)
  obtain r s1 where o: "operation (inner p) = (r, s1)" by (cases "operation (inner p)")
  from Suc.prems have pos: "retries > 0" and n: "n = nat (retries - 1)" by simp_all
  show ?case
  proof (cases r)
    case (Inl e)
    with o have a: "operation (inner p) = (Inl e, s1)" by simp
    then have b: "probed operation p =
      (Inl e, p\<lparr>invocations := Suc (invocations p), raised := raised p @ [e], inner := s1\<rparr>)"
      by (simp add: probed_def)
    let ?p1 = "probe_sleep sleep delay
                 (p\<lparr>invocations := Suc (invocations p), raised := raised p @ [e], inner := s1\<rparr>)"
    have i: "inner ?p1 = sleep delay s1" by (simp add: probe_sleep_def)
    from Suc.IH [OF n, of "delay * 2" ?p1] show ?thesis
      by (simp add: retryOperation_again [where operation = operation, OF a pos]
            retryOperation_again [where operation = "probed operation", OF b pos] i)
  next
    case (Inr v)
    with o have a: "operation (inner p) = (Inr v, s1)" by simp
    then have b: "probed operation p =
      (Inr v, p\<lparr>invocations := Suc (invocations p), raised := raised p, inner := s1\<rparr>)"
      by (simp add: probed_def)
    show ?thesis
      by (simp add: retryOperation_success [where operation = operation, OF a]
            retryOperation_success [where operation = "probed operation", OF b])
  qed
qed

lemma retry_all_fail:
  assumes fails: "\<forall>s. isl (fst (operation s))"
  shows "n = nat retries \<Longrightarrow>
    (let (r, q) = retryOperation (probe_sleep sleep) (probed operation) retries delay p
     in invocations q = invocations p + n + 1
      \<and> waited q = waited p @ backoff delay n
      \<and> length (raised q) = length (raised p) + n + 1
      \<and> r = Inl (last (raised q)))"
proof (induction n arbitrary: retries delay p)
  case 0
  from fails have "isl (fst (operation (inner p)))" by simp
  then obtain e s1 where
    pr: "probed operation p =
           (Inl e, p\<lparr>invocations := Suc (invocations p), raised := raised p @ [e], inner := s1\<rparr>)"
    by (rule probed_fails)
  from 0 have "\<not> retries > 0" by simp
  from retryOperation_last [where operation = "probed operation" and s = p, OF pr this]
  show ?case
    by (simp add: backoff_def)
next
  case (Suc n)
  from fails have "isl (fst (operation (inner p)))" by simp
  then obtain e s1 where
    pr: "probed operation p =
           (Inl e, p\<lparr>invocations := Suc (invocations p), raised := raised p @ [e], inner := s1\<rparr>)"
    by (rule probed_fails)
  from Suc.prems have pos: "retries > 0" and n: "n = nat (retries - 1)" by simp_all
  let ?p1 = "probe_sleep sleep delay
               (p\<lparr>invocations := Suc (invocations p), raised := raised p @ [e], inner := s1\<rparr>)"
  have step: "retryOperation (probe_sleep sleep) (probed operation) retries delay p =
              retryOperation (probe_sleep sleep) (probed operation) (retries - 1) (delay * 2) ?p1"
    by (rule retryOperation_again [where operation = "probed operation" and s = p, OF pr pos])
  have p1: "invocations ?p1 = Suc (invocations p)" "waited ?p1 = waited p @ [delay]"
    "raised ?p1 = raised p @ [e]"
    by (simp_all add: probe_sleep_def)
  from Suc.IH [OF n, of "delay * 2" ?p1] show ?case
    unfolding step
    by (simp add: backoff_Suc p1 split: prod.splits)
qed

text \<open>
  C4. An operation that fails on every attempt is invoked exactly \<open>1 + retries\<close> times
  before the failure is propagated; \<open>delay\<close> is awaited before the first retry and each later
  retry waits twice as long as the one before. With the defaults \<open>retries = 2\<close>,
  \<open>delay = 1000\<close> that is three invocations and the waits 1000 and 2000.
\<close>

theorem retryOperation_attempts:
  assumes "\<forall>s. isl (fst (operation s))" and "0 \<le> retries"
  shows "(let (r, q) = retryOperation (probe_sleep sleep) (probed operation) retries delay p
          in isl r
           \<and> invocations q = invocations p + 1 + nat retries
           \<and> waited q = waited p @ map (\<lambda>k. delay * 2 ^ k) [0..<nat retries])
       \<and> (let (r, q) = retryOperation (probe_sleep sleep) (probed operation) 2 1000 p
          in isl r \<and> invocations q = invocations p + 3 \<and> waited q = waited p @ [1000, 2000])"
proof -
  have two: "[0..<2] = [0, Suc 0]"
    by (simp add: numeral_2_eq_2)
  from retry_all_fail [OF assms(1) refl, of sleep retries delay p]
       retry_all_fail [OF assms(1) refl, of sleep 2 1000 p]
  show ?thesis
    by (simp add: backoff_def two split: prod.splits)
qed

theorem retryOperation_attempts_witness:
  "(\<forall>s::nat. isl (fst ((\<lambda>s. (Inl (Error ''offline'') :: exn + unit, s)) s)))
   \<and> (0::int) \<le> 2
   \<and> (let (r, q) = retryOperation (probe_sleep (\<lambda>d s. s))
                        (probed (\<lambda>s::nat. (Inl (Error ''offline'') :: exn + unit, s))) 2 1000
                        \<lparr>invocations = 0, raised = [], waited = [], inner = 0\<rparr>
        in isl r \<and> invocations q = 3 \<and> waited q = [1000, 2000])"
  using retryOperation_attempts
          [of "\<lambda>s::nat. (Inl (Error ''offline'') :: exn + unit, s)" 2 "\<lambda>d s. s" 1000
              "\<lparr>invocations = 0, raised = [], waited = [], inner = 0\<rparr>"]
  by (simp split: prod.splits)

section \<open>The table export reads back\<close>

lemma double_quotes_Cons:
  "double_quotes (c # s) =
     (if c = CHR 0x22 then [CHR 0x22, CHR 0x22] else [c]) @ double_quotes s"
  by (simp add: double_quotes_def)

lemma cell_eq: "cell v = CHR 0x22 # double_quotes (text_of v) @ [CHR 0x22]"
  by (simp add: cell_def text_of_def double_quotes_def split: option.splits)

lemma read_quoted_body:
  "csv_read Quoted fld row rows (double_quotes s @ CHR 0x22 # rest) =
   csv_read QuoteSeen (fld @ s) row rows rest"
proof (induction s arbitrary: fld)
  case Nil
  show ?case by (simp add: double_quotes_def)
next
  case (Cons c s)
  show ?case
    using Cons.IH [of "fld @ [c]"] by (cases "c = CHR 0x22") (simp_all add: double_quotes_Cons)
qed

lemma read_cell_comma:
  "csv_read FieldStart [] row rows (cell v @ CHR '','' # rest) =
   csv_read FieldStart [] (row @ [text_of v]) rows rest"
  using read_quoted_body [of "[]" row rows "text_of v" "CHR '','' # rest"]
  by (simp add: cell_eq)

lemma read_cell_lf:
  "csv_read FieldStart [] row rows (cell v @ CHR 0x0A # rest) =
   csv_read FieldStart [] [] (rows @ [row @ [text_of v]]) rest"
  using read_quoted_body [of "[]" row rows "text_of v" "CHR 0x0A # rest"]
  by (simp add: cell_eq)

lemma read_cell_end:
  "csv_read FieldStart [] row rows (cell v) = Some (rows @ [row @ [text_of v]])"
  using read_quoted_body [of "[]" row rows "text_of v" "[]"]
  by (simp add: cell_eq)

lemma read_row_lf:
  "csv_read FieldStart [] [] rows (csv_row r @ CHR 0x0A # rest) =
   csv_read FieldStart [] [] (rows @ [csv_fields r]) rest"
  by (simp add: csv_row_def csv_fields_def read_cell_comma read_cell_lf text_of_def)

lemma read_row_end:
  "csv_read FieldStart [] [] rows (csv_row r) = Some (rows @ [csv_fields r])"
  by (simp add: csv_row_def csv_fields_def read_cell_comma read_cell_end text_of_def)

lemma read_rows:
  "rs \<noteq> [] \<Longrightarrow>
   csv_read FieldStart [] [] rows (join [CHR 0x0A] (map csv_row rs)) =
   Some (rows @ map csv_fields rs)"
proof (induction rs arbitrary: rows)
  case Nil
  then show ?case by simp
next
  case (Cons r rs)
  show ?case
  proof (cases rs)
    case Nil
    then show ?thesis by (simp add: read_row_end)
  next
    case (Cons r' rs')
    with Cons.IH [of "rows @ [csv_fields r]"] show ?thesis
      by (simp add: read_row_lf)
  qed
qed

lemma read_headers_lf:
  "csv_read FieldStart [] [] [] (join '','' headers @ CHR 0x0A # rest) =
   csv_read FieldStart [] [] [headers] rest"
  by (simp add: headers_def)

lemma read_headers_end:
  "csv_read FieldStart [] [] [] (join '','' headers) = Some [headers]"
  by (simp add: headers_def)

text \<open>
  C8. The export writes, after the line of column titles, one line per result in the order
  of the list, with the cells candidate name, total experience, email, contact number; a
  cell is its value with every double quote doubled, between double quotes. Reading the text
  back as comma-separated values gives the titles and then, for each result in order, exactly
  these four values, whatever commas, quotes or line breaks they contain.
\<close>

theorem handleExportCSV_reads_back:
  "csv_parse (handleExportCSV results) =
     Some (headers #
           map (\<lambda>r. [candidateName r, candidateExperience r,
                      text_of (email r), text_of (phone r)]) results)
   \<and> handleExportCSV results = join [CHR 0x0A] (join '','' headers # map csv_row results)
   \<and> csv_row r = cell (Some (candidateName r)) @ '','' @ cell (Some (candidateExperience r))
                 @ '','' @ cell (email r) @ '','' @ cell (phone r)
   \<and> cell v = [CHR 0x22] @ double_quotes (text_of v) @ [CHR 0x22]"
proof -
  have reads: "csv_parse (handleExportCSV results) = Some (headers # map csv_fields results)"
  proof (cases results)
    case Nil
    then show ?thesis
      by (simp add: csv_parse_def handleExportCSV_def read_headers_end)
  next
    case (Cons x xs)
    have "handleExportCSV results =
          join '','' headers @ CHR 0x0A # join [CHR 0x0A] (map csv_row results)"
      by (simp add: handleExportCSV_def Cons)
    moreover have "results \<noteq> []" using Cons by simp
    ultimately show ?thesis
      using read_rows [of results "[headers]"]
      by (simp add: csv_parse_def read_headers_lf)
  qed
  have unfolded: "csv_fields = (\<lambda>r. [candidateName r, candidateExperience r,
                                      text_of (email r), text_of (phone r)])"
    by (rule ext) (simp add: csv_fields_def)
  show ?thesis
    using reads by (simp add: unfolded handleExportCSV_def csv_row_def cell_eq)
qed

section \<open>Code units\<close>

lemma unit_inj: "(of_nat (of_char c) :: 16 word) = of_nat (of_char d) \<longleftrightarrow> c = d"
proof
  assume "(of_nat (of_char c) :: 16 word) = of_nat (of_char d)"
  then have "take_bit 16 (of_char c :: nat) = take_bit 16 (of_char d :: nat)"
    by (simp add: word_of_nat_eq_iff)
  moreover have "(of_char x :: nat) < 2 ^ 16" for x
  proof -
    have "(of_char x :: nat) < 256" by (rule nat_of_char_less_256)
    also have "(256 :: nat) < 2 ^ 16" by simp
    finally show ?thesis .
  qed
  ultimately have "(of_char c :: nat) = of_char d"
    by (simp add: take_bit_nat_eq_self)
  then show "c = d" by simp
qed simp

lemma units_eq_iff [simp]: "units a = units b \<longleftrightarrow> a = b"
proof -
  have "inj (\<lambda>c. of_nat (of_char c) :: 16 word)"
    by (rule injI) (simp add: unit_inj)
  then show ?thesis unfolding units_def by (simp add: inj_map_eq_map)
qed

lemma units_Nil [simp]: "units s = [] \<longleftrightarrow> s = []"
  by (simp add: units_def)

section \<open>Rounding to a double\<close>

lemma pow2_less_iff: "(2::rat) powi a < 2 powi b \<longleftrightarrow> a < b"
proof
  assume "a < b"
  then show "(2::rat) powi a < 2 powi b" by (intro power_int_strict_increasing) simp_all
next
  assume l: "(2::rat) powi a < 2 powi b"
  show "a < b"
  proof (rule ccontr)
    assume "\<not> a < b"
    then have "b \<le> a" by simp
    then have "(2::rat) powi b \<le> 2 powi a" by (intro power_int_increasing) simp_all
    with l show False by simp
  qed
qed

lemma pow2_le_iff: "(2::rat) powi a \<le> 2 powi b \<longleftrightarrow> a \<le> b"
  using pow2_less_iff [of b a] by (simp add: not_less [symmetric])

lemma int_pow_bounds:
  assumes "0 < p"
  shows "(2::rat) powi (bitlen p - 1) \<le> of_int p" "of_int p < (2::rat) powi bitlen p"
proof -
  from bitlen_bounds [OF assms] have a: "2 ^ nat (bitlen p - 1) \<le> p" and b: "p < 2 ^ nat (bitlen p)"
    by simp_all
  have n: "0 \<le> bitlen p - 1" using assms bitlen_nonneg [of p] bitlen_eq_zero_iff [of p] by linarith
  from a have "(of_int (2 ^ nat (bitlen p - 1)) :: rat) \<le> of_int p" by (simp only: of_int_le_iff)
  with n show "(2::rat) powi (bitlen p - 1) \<le> of_int p" by (simp add: power_int_def)
  from b have "(of_int p :: rat) < of_int (2 ^ nat (bitlen p))" by (simp only: of_int_less_iff)
  with n show "of_int p < (2::rat) powi bitlen p" by (simp add: power_int_def)
qed

lemma ilog2_bounds:
  assumes "0 < a"
  shows "2 powi ilog2 a \<le> a \<and> a < 2 powi (ilog2 a + 1)"
proof -
  obtain p q where pq: "quotient_of a = (p, q)" by (cases "quotient_of a")
  then have q: "0 < q" and a: "a = of_int p / of_int q"
    by (simp_all add: quotient_of_denom_pos quotient_of_div)
  with assms have p: "0 < p" by (simp add: zero_less_divide_iff)
  note P = int_pow_bounds [OF p] and Q = int_pow_bounds [OF q]
  let ?d = "bitlen p - bitlen q"
  have qpos: "(0::rat) < of_int q" using q by simp
  have "a < 2 powi bitlen p / of_int q"
    unfolding a using P(2) qpos by (intro divide_strict_right_mono)
  also have "\<dots> \<le> 2 powi bitlen p / 2 powi (bitlen q - 1)"
    using Q(1) qpos by (intro divide_left_mono) (simp_all add: mult_pos_pos)
  also have "\<dots> = 2 powi (?d + 1)"
    using power_int_diff [of "2::rat" "bitlen p" "bitlen q - 1"] by (simp add: algebra_simps)
  finally have up: "a < 2 powi (?d + 1)" .
  have "(2::rat) powi (?d - 1) = 2 powi (bitlen p - 1) / 2 powi bitlen q"
    using power_int_diff [of "2::rat" "bitlen p - 1" "bitlen q"] by (simp add: algebra_simps)
  also have "\<dots> < 2 powi (bitlen p - 1) / of_int q"
    using Q(2) qpos by (intro divide_strict_left_mono) simp_all
  also have "\<dots> \<le> a"
    unfolding a using P(1) qpos by (intro divide_right_mono) simp_all
  finally have lo: "2 powi (?d - 1) < a" .
  show ?thesis
  proof (cases "2 powi ?d \<le> a")
    case True
    with up pq show ?thesis by (simp add: ilog2_def)
  next
    case False
    with lo pq show ?thesis by (simp add: ilog2_def)
  qed
qed

lemma ilog2_unique:
  assumes "2 powi e \<le> a" and "a < 2 powi (e + 1)"
  shows "ilog2 a = e"
proof -
  have "(0::rat) < 2 powi e" by simp
  with assms(1) have "0 < a" by linarith
  from ilog2_bounds [OF this] have l: "2 powi ilog2 a \<le> a" and u: "a < 2 powi (ilog2 a + 1)"
    by simp_all
  from l assms(2) have "(2::rat) powi ilog2 a < 2 powi (e + 1)" by simp
  then have 1: "ilog2 a < e + 1" by (simp only: pow2_less_iff)
  from assms(1) u have "(2::rat) powi e < 2 powi (ilog2 a + 1)" by simp
  then have 2: "e < ilog2 a + 1" by (simp only: pow2_less_iff)
  from 1 2 show ?thesis by simp
qed

lemma round_even_cases:
  obtains f r where "y = of_int f + r" and "0 \<le> r" and "r < 1"
    and "round_even y = (if r < 1 / 2 then f else if 1 / 2 < r then f + 1
                         else if even f then f else f + 1)"
proof -
  have "of_int \<lfloor>y\<rfloor> \<le> y" "y < of_int \<lfloor>y\<rfloor> + 1" by linarith+
  then have "0 \<le> y - of_int \<lfloor>y\<rfloor>" "y - of_int \<lfloor>y\<rfloor> < 1" by linarith+
  then show thesis
    by (intro that [of "\<lfloor>y\<rfloor>" "y - of_int \<lfloor>y\<rfloor>"]) (simp_all add: round_even_def Let_def)
qed

lemma round_even_bounds: "of_int (round_even y) \<le> y + 1 / 2 \<and> y - 1 / 2 \<le> of_int (round_even y)"
proof -
  obtain f r where "y = of_int f + r" "0 \<le> r" "r < 1"
    "round_even y = (if r < 1 / 2 then f else if 1 / 2 < r then f + 1
                     else if even f then f else f + 1)"
    by (rule round_even_cases)
  then show ?thesis
    by (cases "r < 1 / 2"; cases "1 / 2 < r"; cases "even f") simp_all
qed

lemma round_even_nonneg: "0 \<le> y \<Longrightarrow> 0 \<le> round_even y"
  by (auto simp add: round_even_def Let_def)

lemma round_even_int: "round_even (of_int n) = n"
  by (simp add: round_even_def)

lemma round_even_le:
  assumes "y \<le> of_int n"
  shows "round_even y \<le> n"
proof -
  have "\<lfloor>y\<rfloor> \<le> n" using assms by (simp add: floor_le_iff)
  moreover have "\<lfloor>y\<rfloor> = n \<Longrightarrow> y = of_int n" using assms by linarith
  ultimately show ?thesis
    by (cases "\<lfloor>y\<rfloor> = n") (auto simp add: round_even_def Let_def)
qed

lemma to_double_pos:
  assumes "0 < x"
    and "of_int (round_even (x / 2 powi (max (ilog2 x) (- 1022) - 52)))
           * 2 powi (max (ilog2 x) (- 1022) - 52) < (2::rat) powi 1024"
  shows "to_double x =
         Finite (of_int (round_even (x / 2 powi (max (ilog2 x) (- 1022) - 52)))
                   * 2 powi (max (ilog2 x) (- 1022) - 52))"
  using assms by (simp add: to_double_def Let_def)

lemma to_double_int:
  assumes "0 < n" and "n < 2 ^ 53"
  shows "to_double (of_int n) = Finite (of_int n)"
proof -
  let ?x = "of_int n :: rat"
  have x: "0 < ?x" using assms(1) by simp
  from ilog2_bounds [OF x] have l: "2 powi ilog2 ?x \<le> ?x" and u: "?x < 2 powi (ilog2 ?x + 1)"
    by simp_all
  have "(2::rat) powi 0 \<le> ?x" using assms(1) by simp
  with u have "(2::rat) powi 0 < 2 powi (ilog2 ?x + 1)" by linarith
  then have e0: "0 \<le> ilog2 ?x" by (simp only: pow2_less_iff; simp)
  from assms(2) have "?x < of_int (2 ^ 53)" by (simp only: of_int_less_iff)
  then have "?x < 2 powi 53" by simp
  with l have "(2::rat) powi ilog2 ?x < 2 powi 53" by linarith
  then have e52: "ilog2 ?x \<le> 52" by (simp only: pow2_less_iff; simp)
  define k where "k = nat (52 - ilog2 ?x)"
  have E: "max (ilog2 ?x) (- 1022) - 52 = - int k" using e0 e52 by (simp add: k_def)
  have q: "?x / 2 powi (- int k) = of_int (n * 2 ^ k)"
    by (simp add: power_int_minus field_simps)
  have d: "of_int (round_even (?x / 2 powi (- int k))) * 2 powi (- int k) = ?x"
    unfolding q round_even_int by (simp add: power_int_minus field_simps)
  have "(2::rat) powi 53 \<le> 2 powi 1024" by (simp only: pow2_le_iff; simp)
  with \<open>?x < 2 powi 53\<close> have "?x < 2 powi 1024" by linarith
  with to_double_pos [OF x] d E show ?thesis by simp
qed

lemma double_below_one:
  assumes "0 \<le> u" and "u < 1" and "to_double u = Finite u"
  shows "u \<le> 1 - 1 / 2 ^ 53"
proof (cases "u < 1 / 2")
  case True
  then show ?thesis by simp
next
  case False
  then have h: "2 powi (- 1) \<le> u" by (simp add: power_int_minus)
  have "u < 2 powi (- 1 + 1)" using assms(2) by simp
  from ilog2_unique [OF h this] have e: "ilog2 u = - 1" .
  have pos: "0 < u" using False by simp
  define m where "m = round_even (u / 2 powi (- 53))"
  from assms(3) pos e have "of_int m * 2 powi (- 53) = u"
    by (simp add: to_double_def Let_def m_def split: if_splits)
  then have um: "u = of_int m / 2 ^ 53" by (simp add: power_int_minus field_simps)
  with assms(2) have "(of_int m :: rat) < 2 ^ 53" by (simp add: field_simps)
  then have "(of_int m :: rat) < of_int (2 ^ 53)" by simp
  then have "m < 2 ^ 53" by (simp only: of_int_less_iff)
  then have "m \<le> 2 ^ 53 - 1" by simp
  then have "(of_int m :: rat) \<le> of_int (2 ^ 53 - 1)" by (simp only: of_int_le_iff)
  then show ?thesis unfolding um by (simp add: field_simps)
qed

lemma to_double_below_40:
  assumes "0 \<le> x" and "x \<le> 40 - 5 / 2 ^ 50"
  shows "\<exists>d. to_double x = Finite d \<and> 0 \<le> d \<and> d < 40"
proof (cases "x = 0")
  case True
  then show ?thesis by (simp add: to_double_def)
next
  case False
  with assms(1) have pos: "0 < x" by simp
  from ilog2_bounds [OF pos] have l: "2 powi ilog2 x \<le> x" and u: "x < 2 powi (ilog2 x + 1)"
    by simp_all
  have "x < 2 powi 6" using assms(2) by simp
  with l have "(2::rat) powi ilog2 x < 2 powi 6" by linarith
  then have e5: "ilog2 x \<le> 5" by (simp only: pow2_less_iff; simp)
  define E where "E = max (ilog2 x) (- 1022)"
  define m where "m = round_even (x / 2 powi (E - 52))"
  define d where "d = (of_int m :: rat) * 2 powi (E - 52)"
  have E5: "E \<le> 5" using e5 by (simp add: E_def)
  have m0: "0 \<le> m" using pos by (simp add: m_def round_even_nonneg)
  then have d0: "0 \<le> d" by (simp add: d_def)
  have d40: "d < 40"
  proof (cases "E \<le> 4")
    case True
    have "ilog2 x + 1 \<le> E + 1" by (simp add: E_def)
    then have "(2::rat) powi (ilog2 x + 1) \<le> 2 powi (E + 1)" by (simp only: pow2_le_iff)
    with u have "x < 2 powi (E + 1)" by linarith
    then have "x / 2 powi (E - 52) < 2 powi (E + 1) / 2 powi (E - 52)"
      by (intro divide_strict_right_mono) simp_all
    also have "\<dots> = 2 powi 53"
      using power_int_diff [of "2::rat" "E + 1" "E - 52"] by simp
    finally have "x / 2 powi (E - 52) \<le> of_int (2 ^ 53)" by simp
    from round_even_le [OF this] have "m \<le> 2 ^ 53" by (simp add: m_def)
    then have "(of_int m :: rat) \<le> of_int (2 ^ 53)" by (simp only: of_int_le_iff)
    then have "d \<le> 2 powi 53 * 2 powi (E - 52)"
      unfolding d_def by (intro mult_right_mono) simp_all
    also have "\<dots> = 2 powi (53 + (E - 52))"
      by (rule power_int_add [symmetric]) simp
    also have "\<dots> = 2 powi (E + 1)" by (simp add: algebra_simps)
    also have "\<dots> \<le> 2 powi 5" using True by (simp only: pow2_le_iff; simp)
    finally show ?thesis by simp
  next
    case False
    with E5 have E: "E = 5" by simp
    have q: "x / 2 powi (E - 52) = x * 2 ^ 47"
      unfolding E by (simp add: power_int_minus field_simps)
    have "x * 2 ^ 47 \<le> (40 - 5 / 2 ^ 50) * 2 ^ 47"
      using assms(2) by (intro mult_right_mono) simp_all
    then have "x * 2 ^ 47 \<le> 40 * 2 ^ 47 - 5 / 8" by simp
    with round_even_bounds [of "x * 2 ^ 47"] q
    have "(of_int m :: rat) \<le> 40 * 2 ^ 47 - 1 / 8" by (simp add: m_def)
    then have "(of_int m :: rat) < of_int (40 * 2 ^ 47)" by simp
    then have "m < 40 * 2 ^ 47" by (simp only: of_int_less_iff)
    then have "m \<le> 40 * 2 ^ 47 - 1" by simp
    then have "(of_int m :: rat) \<le> of_int (40 * 2 ^ 47 - 1)" by (simp only: of_int_le_iff)
    then have "d \<le> (40 * 2 ^ 47 - 1) * 2 powi (- 47)"
      unfolding d_def E by simp
    then show ?thesis by (simp add: power_int_minus field_simps)
  qed
  have "(2::rat) powi 6 \<le> 2 powi 1024" by (simp only: pow2_le_iff; simp)
  moreover have "(40::rat) < 2 powi 6" by simp
  ultimately have "d < 2 powi 1024" using d40 by linarith
  with to_double_pos [OF pos] have "to_double x = Finite d"
    by (simp add: d_def m_def E_def)
  with d0 d40 show ?thesis by blast
qed

lemma mock_score_range:
  assumes "0 \<le> u" and "u < 1" and "to_double u = Finite u"
  shows "\<exists>k. mock_score u = Finite (of_int k) \<and> 60 \<le> k \<and> k \<le> 99"
proof -
  from double_below_one [OF assms] have "u * 40 \<le> (1 - 1 / 2 ^ 53) * 40"
    by (intro mult_right_mono) simp_all
  then have "u * 40 \<le> 40 - 5 / 2 ^ 50" by simp
  moreover have "0 \<le> u * 40" using assms(1) by simp
  ultimately obtain d where d: "to_double (u * 40) = Finite d" "0 \<le> d" "d < 40"
    using to_double_below_40 by blast
  define k where "k = \<lfloor>d\<rfloor> + 60"
  have "0 \<le> \<lfloor>d\<rfloor>" "\<lfloor>d\<rfloor> \<le> 39" using d(2,3) by (simp_all add: floor_le_iff) 
  then have k: "60 \<le> k" "k \<le> 99" by (simp_all add: k_def)
  then have "0 < k" "k < 2 ^ 53" by simp_all
  from to_double_int [OF this] have "to_double (of_int \<lfloor>d\<rfloor> + 60) = Finite (of_int k)"
    by (simp add: k_def)
  with d(1) k show ?thesis by (auto simp add: mock_score_def)
qed

text \<open>
  The rounding of the product shows in the score: at the double nearest to 0.975 the exact
  product with 40 is below 39, the double product is 39, and the score is 99.
\<close>

lemma mock_score_rounds:
  "to_double (8782019273372467 / 9007199254740992) = Finite (8782019273372467 / 9007199254740992)
   \<and> \<lfloor>(8782019273372467 / 9007199254740992 :: rat) * 40\<rfloor> = 38
   \<and> mock_score (8782019273372467 / 9007199254740992) = Finite 99"
  by code_simp

section \<open>Properties of \<^verbatim>\<open>screenResume\<close>\<close>

lemma screenResume_provider_path:
  assumes "\<not> is_mock resume" and "base64 resume = Some data" and "data \<noteq> []"
    and "jdContext_of env provider jdText jdFile = Inr jd"
  shows "screenResume env resume jdText jdFile model provider w =
         retryOperation setTimeout
           (operation_of env resume data jdFile model provider jd) 2 1000 w"
  using assms by (auto simp add: screenResume_def is_mock_def)

lemma screenResume_mock_path:
  assumes "is_mock resume"
  shows "screenResume env resume jdText jdFile model provider w =
         (Inr (generateMockResult (Math_random env (draws w))
                 (case file resume of None \<Rightarrow> ''Candidate''
                  | Some n \<Rightarrow> if n = [] then ''Candidate'' else n)),
          w\<lparr>timeouts := timeouts w @ [1500], draws := Suc (draws w)\<rparr>)"
  using assms by (simp add: screenResume_def is_mock_def setTimeout_def Let_def)

lemma retry_constant_failure:
  assumes "\<forall>w. operation w = (Inl e, w)"
  shows "retryOperation setTimeout operation 2 1000 w =
         (Inl e, w\<lparr>timeouts := timeouts w @ [1000, 2000]\<rparr>)"
proof -
  have f: "operation w' = (Inl e, w')" for w' using assms by simp
  have "retryOperation setTimeout operation 2 1000 w =
        retryOperation setTimeout operation 1 2000 (setTimeout 1000 w)"
    using retryOperation_again [where operation = operation and s = w, OF f, of 2 setTimeout 1000]
    by simp
  also have "\<dots> = retryOperation setTimeout operation 0 4000 (setTimeout 2000 (setTimeout 1000 w))"
    using retryOperation_again [where operation = operation and s = "setTimeout 1000 w", OF f,
             of 1 setTimeout 2000]
    by simp
  also have "\<dots> = (Inl e, setTimeout 2000 (setTimeout 1000 w))"
    using retryOperation_last [where operation = operation
             and s = "setTimeout 2000 (setTimeout 1000 w)", OF f, of 0 setTimeout 4000]
    by simp
  finally show ?thesis by (simp add: setTimeout_def)
qed

lemma retry_Inr_origin:
  "retryOperation sleep operation retries delay s = (Inr v, s') \<Longrightarrow>
   \<exists>s0. operation s0 = (Inr v, s')"
proof (induction sleep operation retries delay s rule: retryOperation.induct)
  case (1 sleep operation retries delay s)
  obtain r s1 where o: "operation s = (r, s1)" by (cases "operation s")
  show ?case
  proof (cases r)
    case (Inr x)
    with o "1.prems" have "x = v \<and> s1 = s'"
      by (simp add: retryOperation_success [where operation = operation and s = s])
    with o Inr show ?thesis by auto
  next
    case (Inl e)
    show ?thesis
    proof (cases "retries > 0")
      case True
      from o Inl have oe: "operation s = (Inl e, s1)" by simp
      from "1.prems"
      have "retryOperation sleep operation (retries - 1) (delay * 2) (sleep delay s1) = (Inr v, s')"
        by (simp add: retryOperation_again [where operation = operation and s = s, OF oe True])
      from "1.IH" [OF oe [symmetric] _ True this] show ?thesis by simp
    next
      case False
      from o Inl have oe: "operation s = (Inl e, s1)" by simp
      from "1.prems" show ?thesis
        by (simp add: retryOperation_last [where operation = operation and s = s, OF oe False])
    qed
  qed
qed

lemma parse_response_Inr:
  "parse_response env m answer = Inr v
     \<longleftrightarrow> (\<exists>t. answer = Some t \<and> t \<noteq> [] \<and> JSON_parse env t = Some v)"
  by (auto simp add: parse_response_def split: option.splits)

lemma parse_response_Inl:
  "parse_response env m answer = Inl e
     \<longleftrightarrow> ((answer = None \<or> answer = Some []) \<and> e = Error m)
       \<or> (\<exists>t. answer = Some t \<and> t \<noteq> [] \<and> JSON_parse env t = None
              \<and> e = Exn ''SyntaxError'' (syntax_error_message env t))"
  by (auto simp add: parse_response_def split: option.splits)

lemma gemini_answered:
  assumes "truthy (API_KEY env)"
    and "gemini_parts env resume data jdFile jd = Inr parts"
    and "respond env (length (requests w)) (generateContent model parts) = Inr answer"
  shows "operation_of env resume data jdFile model gemini jd w =
         (parse_response env ''Empty response from Gemini'' answer,
          w\<lparr>requests := requests w @ [generateContent model parts]\<rparr>)"
  using assms by (simp add: operation_of_def gemini_operation_def send_def)

lemma openai_answered:
  assumes "truthy (OPENAI_API_KEY env)"
    and "openai_resume_text env resume data = Inr body"
    and "respond env (length (requests w))
           (chat_completions_create model (openai_messages jd body)) = Inr answer"
  shows "operation_of env resume data jdFile model openai jd w =
         (parse_response env ''No response from OpenAI'' answer,
          w\<lparr>requests := requests w
                  @ [chat_completions_create model (openai_messages jd body)]\<rparr>)"
  using assms by (simp add: operation_of_def openai_operation_def send_def)

lemma operation_Inr_parsed:
  assumes "operation_of env resume data jdFile model provider jd w0 = (Inr v, w')"
  shows "\<exists>n req t. respond env n req = Inr (Some t) \<and> t \<noteq> [] \<and> JSON_parse env t = Some v"
proof (cases provider)
  case gemini
  with assms show ?thesis
    by (auto simp add: operation_of_def gemini_operation_def send_def parse_response_Inr
             split: if_splits sum.splits prod.splits)
next
  case openai
  with assms show ?thesis
    by (auto simp add: operation_of_def openai_operation_def send_def parse_response_Inr
             split: if_splits sum.splits prod.splits)
qed

section \<open>What \<^verbatim>\<open>screenResume\<close> checks and what it does not\<close>

lemma mime_distinct: "pdf_mime \<noteq> docx_mime"
  by (simp add: pdf_mime_def docx_mime_def)

lemma gemini_missing_key:
  "\<not> truthy (API_KEY env) \<Longrightarrow>
   operation_of env resume data jdFile model gemini jd w =
     (Inl (Error ''Gemini API Key missing in environment variables.''), w)"
  by (simp add: operation_of_def gemini_operation_def)

lemma openai_missing_key:
  "\<not> truthy (OPENAI_API_KEY env) \<Longrightarrow>
   operation_of env resume data jdFile model openai jd w =
     (Inl (Error ''OpenAI API Key missing. Please configure OPENAI_API_KEY in backend/environment variables.''), w)"
  by (simp add: operation_of_def openai_operation_def)

lemma openai_pdf_refused:
  "mimeType resume = pdf_mime \<Longrightarrow>
   openai_resume_text env resume data =
     Inl (Error ''OpenAI mode currently supports DOCX and Text files only. Please use Gemini for PDF resumes.'')"
  by (simp add: openai_resume_text_def)

lemma gemini_first_attempt:
  assumes "truthy (API_KEY env)"
    and "gemini_parts env resume data jdFile jd = Inr parts"
    and "respond env (length (requests w)) (generateContent model parts) = Inr (Some t)"
    and "t \<noteq> []" and "JSON_parse env t = Some v"
  shows "operation_of env resume data jdFile model gemini jd w =
         (Inr v, w\<lparr>requests := requests w @ [generateContent model parts]\<rparr>)"
  using assms
  by (simp add: operation_of_def gemini_operation_def send_def parse_response_def)

lemma openai_first_attempt:
  assumes "truthy (OPENAI_API_KEY env)"
    and "openai_resume_text env resume data = Inr body"
    and "respond env (length (requests w))
           (chat_completions_create model (openai_messages jd body)) = Inr (Some t)"
    and "t \<noteq> []" and "JSON_parse env t = Some v"
  shows "operation_of env resume data jdFile model openai jd w =
         (Inr v, w\<lparr>requests := requests w
                        @ [chat_completions_create model (openai_messages jd body)]\<rparr>)"
  using assms
  by (simp add: operation_of_def openai_operation_def send_def parse_response_def)

text \<open>
  C7. \<^verbatim>\<open>retryOperation\<close> never looks at the error: when every attempt fails, whatever the
  errors are, the operation is attempted \<open>1 + retries\<close> times and the error propagated is the
  one raised by the last attempt, as it was raised. A missing credential is such a failure:
  \<^verbatim>\<open>screenResume\<close> then waits 1000 and 2000 milliseconds for its two retries, sends nothing,
  and fails with the error of the credential check itself.
\<close>

theorem failures_retried_alike:
  "((\<forall>s. isl (fst (operation s))) \<and> 0 \<le> retries \<longrightarrow>
      (let (r, q) = retryOperation (probe_sleep sleep) (probed operation) retries delay p
       in length (raised q) = length (raised p) + 1 + nat retries
        \<and> r = Inl (last (raised q))))
   \<and> (\<not> is_mock resume \<and> base64 resume = Some data \<and> data \<noteq> []
        \<and> jdContext_of env gemini jdText jdFile = Inr jd \<and> \<not> truthy (API_KEY env) \<longrightarrow>
        screenResume env resume jdText jdFile model gemini w =
          (Inl (Error ''Gemini API Key missing in environment variables.''),
           w\<lparr>timeouts := timeouts w @ [1000, 2000]\<rparr>))
   \<and> (\<not> is_mock resume \<and> base64 resume = Some data \<and> data \<noteq> []
        \<and> jdContext_of env openai jdText jdFile = Inr jd \<and> \<not> truthy (OPENAI_API_KEY env) \<longrightarrow>
        screenResume env resume jdText jdFile model openai w =
          (Inl (Error ''OpenAI API Key missing. Please configure OPENAI_API_KEY in backend/environment variables.''),
           w\<lparr>timeouts := timeouts w @ [1000, 2000]\<rparr>))"
proof (intro conjI impI)
  assume "(\<forall>s. isl (fst (operation s))) \<and> 0 \<le> retries"
  then have f: "\<forall>s. isl (fst (operation s))" by simp
  from retry_all_fail [OF f refl, of sleep retries delay p]
  show "let (r, q) = retryOperation (probe_sleep sleep) (probed operation) retries delay p
        in length (raised q) = length (raised p) + 1 + nat retries \<and> r = Inl (last (raised q))"
    by (simp split: prod.splits)
next
  assume a: "\<not> is_mock resume \<and> base64 resume = Some data \<and> data \<noteq> []
        \<and> jdContext_of env gemini jdText jdFile = Inr jd \<and> \<not> truthy (API_KEY env)"
  then have "\<forall>w. operation_of env resume data jdFile model gemini jd w =
               (Inl (Error ''Gemini API Key missing in environment variables.''), w)"
    by (simp add: gemini_missing_key)
  from retry_constant_failure [OF this] a
  show "screenResume env resume jdText jdFile model gemini w =
          (Inl (Error ''Gemini API Key missing in environment variables.''),
           w\<lparr>timeouts := timeouts w @ [1000, 2000]\<rparr>)"
    by (simp add: screenResume_provider_path)
next
  assume a: "\<not> is_mock resume \<and> base64 resume = Some data \<and> data \<noteq> []
        \<and> jdContext_of env openai jdText jdFile = Inr jd \<and> \<not> truthy (OPENAI_API_KEY env)"
  then have "\<forall>w. operation_of env resume data jdFile model openai jd w =
               (Inl (Error ''OpenAI API Key missing. Please configure OPENAI_API_KEY in backend/environment variables.''), w)"
    by (simp add: openai_missing_key)
  from retry_constant_failure [OF this] a
  show "screenResume env resume jdText jdFile model openai w =
          (Inl (Error ''OpenAI API Key missing. Please configure OPENAI_API_KEY in backend/environment variables.''),
           w\<lparr>timeouts := timeouts w @ [1000, 2000]\<rparr>)"
    by (simp add: screenResume_provider_path)
qed

text \<open>
  C1 (amended). The response-parsing step does not look at \<^verbatim>\<open>recommendation\<close>: it succeeds
  exactly when the provider's text is non-empty and \<^verbatim>\<open>JSON.parse\<close> accepts it, and then
  \<^verbatim>\<open>screenResume\<close> returns the parsed value as it is, for Gemini and for OpenAI alike. The
  step fails exactly in two ways: with the \<^verbatim>\<open>Error\<close> for an empty response when the provider
  gave no text or the empty text, and with the \<^verbatim>\<open>SyntaxError\<close> of \<^verbatim>\<open>JSON.parse\<close> when the
  text is not empty and \<^verbatim>\<open>JSON.parse\<close> throws. Once a provider has answered, the outcome of
  the attempt is the outcome of this step, with the message \<^verbatim>\<open>Empty response from Gemini\<close>
  for Gemini and \<^verbatim>\<open>No response from OpenAI\<close> for OpenAI.
\<close>

theorem response_returned_unvalidated:
  assumes "\<not> is_mock resume" and "base64 resume = Some data" and "data \<noteq> []"
    and "jdContext_of env provider jdText jdFile = Inr jd"
    and "t \<noteq> []" and "JSON_parse env t = Some v"
  shows "(provider = gemini \<and> truthy (API_KEY env)
          \<and> gemini_parts env resume data jdFile jd = Inr parts
          \<and> respond env (length (requests w)) (generateContent model parts) = Inr (Some t) \<longrightarrow>
          screenResume env resume jdText jdFile model provider w =
            (Inr v, w\<lparr>requests := requests w @ [generateContent model parts]\<rparr>))
       \<and> (provider = openai \<and> truthy (OPENAI_API_KEY env)
          \<and> openai_resume_text env resume data = Inr body
          \<and> respond env (length (requests w))
               (chat_completions_create model (openai_messages jd body)) = Inr (Some t) \<longrightarrow>
          screenResume env resume jdText jdFile model provider w =
            (Inr v, w\<lparr>requests := requests w
                           @ [chat_completions_create model (openai_messages jd body)]\<rparr>))
       \<and> (parse_response env m answer = Inr v'
            \<longleftrightarrow> (\<exists>t'. answer = Some t' \<and> t' \<noteq> [] \<and> JSON_parse env t' = Some v'))
       \<and> (parse_response env m answer = Inl e
            \<longleftrightarrow> ((answer = None \<or> answer = Some []) \<and> e = Error m)
              \<or> (\<exists>t'. answer = Some t' \<and> t' \<noteq> [] \<and> JSON_parse env t' = None
                      \<and> e = Exn ''SyntaxError'' (syntax_error_message env t')))
       \<and> (truthy (API_KEY env) \<and> gemini_parts env resume data jdFile jd = Inr parts
          \<and> respond env (length (requests w)) (generateContent model parts) = Inr answer \<longrightarrow>
          operation_of env resume data jdFile model gemini jd w =
            (parse_response env ''Empty response from Gemini'' answer,
             w\<lparr>requests := requests w @ [generateContent model parts]\<rparr>))
       \<and> (truthy (OPENAI_API_KEY env) \<and> openai_resume_text env resume data = Inr body
          \<and> respond env (length (requests w))
               (chat_completions_create model (openai_messages jd body)) = Inr answer \<longrightarrow>
          operation_of env resume data jdFile model openai jd w =
            (parse_response env ''No response from OpenAI'' answer,
             w\<lparr>requests := requests w
                     @ [chat_completions_create model (openai_messages jd body)]\<rparr>))"
proof -
  have g: "screenResume env resume jdText jdFile model provider w =
            (Inr v, w\<lparr>requests := requests w @ [generateContent model parts]\<rparr>)"
    if a: "provider = gemini \<and> truthy (API_KEY env)
          \<and> gemini_parts env resume data jdFile jd = Inr parts
          \<and> respond env (length (requests w)) (generateContent model parts) = Inr (Some t)"
  proof -
    from a have "operation_of env resume data jdFile model gemini jd w =
         (Inr v, w\<lparr>requests := requests w @ [generateContent model parts]\<rparr>)"
      using assms(5,6) by (intro gemini_first_attempt) simp_all
    with a assms(1-4) show ?thesis
      by (simp add: screenResume_provider_path retryOperation_success)
  qed
  have oa: "screenResume env resume jdText jdFile model provider w =
            (Inr v, w\<lparr>requests := requests w
                           @ [chat_completions_create model (openai_messages jd body)]\<rparr>)"
    if a: "provider = openai \<and> truthy (OPENAI_API_KEY env)
          \<and> openai_resume_text env resume data = Inr body
          \<and> respond env (length (requests w))
               (chat_completions_create model (openai_messages jd body)) = Inr (Some t)"
  proof -
    from a have "operation_of env resume data jdFile model openai jd w =
         (Inr v, w\<lparr>requests := requests w
                        @ [chat_completions_create model (openai_messages jd body)]\<rparr>)"
      using assms(5,6) by (intro openai_first_attempt) simp_all
    with a assms(1-4) show ?thesis
      by (simp add: screenResume_provider_path retryOperation_success)
  qed
  have ga: "operation_of env resume data jdFile model gemini jd w =
            (parse_response env ''Empty response from Gemini'' answer,
             w\<lparr>requests := requests w @ [generateContent model parts]\<rparr>)"
    if "truthy (API_KEY env) \<and> gemini_parts env resume data jdFile jd = Inr parts
          \<and> respond env (length (requests w)) (generateContent model parts) = Inr answer"
    using that by (intro gemini_answered) simp_all
  have ob: "operation_of env resume data jdFile model openai jd w =
            (parse_response env ''No response from OpenAI'' answer,
             w\<lparr>requests := requests w
                     @ [chat_completions_create model (openai_messages jd body)]\<rparr>)"
    if "truthy (OPENAI_API_KEY env) \<and> openai_resume_text env resume data = Inr body
          \<and> respond env (length (requests w))
               (chat_completions_create model (openai_messages jd body)) = Inr answer"
    using that by (intro openai_answered) simp_all
  note r = parse_response_Inr [of env m answer v']
  note l = parse_response_Inl [of env m answer e]
  from g oa ga ob r l show ?thesis by blast
qed

lemma skill_entry_score: "js_get ''score'' (skill_entry a q b c) = Some (JNumber q)"
  by (simp add: js_get_def skill_entry_def)

lemma mock_skills:
  "skill_scores (generateMockResult u n) =
     [Some (JNumber (Finite 85)), Some (JNumber (Finite 75)), Some (JNumber (Finite 60))]"
  by (simp add: skill_scores_def js_get_def generateMockResult_def skill_entry_def)

lemma mock_overall:
  "js_get ''overallMatchScore'' (generateMockResult u n) = Some (JNumber (mock_score u))"
  by (simp add: js_get_def generateMockResult_def)

lemma mock_scores:
  assumes "0 \<le> u" and "u < 1" and "to_double u = Finite u"
  shows "scores_in_range (generateMockResult u n)
       \<and> (\<exists>k. js_get ''overallMatchScore'' (generateMockResult u n)
                = Some (JNumber (Finite (of_int k))) \<and> 60 \<le> k \<and> k \<le> 99)
       \<and> skill_scores (generateMockResult u n) =
           [Some (JNumber (Finite 85)), Some (JNumber (Finite 75)), Some (JNumber (Finite 60))]"
proof -
  from mock_score_range [OF assms] obtain k where
    k: "mock_score u = Finite (of_int k)" "60 \<le> k" "k \<le> 99" by blast
  have g: "js_get ''overallMatchScore'' (generateMockResult u n)
           = Some (JNumber (Finite (of_int k)))"
    by (simp add: mock_overall k(1))
  have s: "js_get ''skillsAnalysis'' (generateMockResult u n) =
           Some (JArray
           [skill_entry ''React'' (Finite 85) ''Demonstrated strong proficiency in simulated context.''
              ''Built complex UIs'',
            skill_entry ''TypeScript'' (Finite 75) ''Good understanding implied by role.''
              ''Used in recent projects'',
            skill_entry ''Cloud Platforms'' (Finite 60) ''Mentioned but lacks specific details in this mock.''
              ''Deployed apps''])"
    by (simp add: js_get_def generateMockResult_def)
  have top: "score_in_range (Some (JNumber (Finite (of_int k))))"
    using k(2,3) by (simp add: score_in_range_def)
  have "scores_in_range (generateMockResult u n)"
    unfolding scores_in_range_def g s using top
    by (simp add: skill_entry_score score_in_range_def)
  with g k(2,3) mock_skills show ?thesis by blast
qed

text \<open>
  C2 (amended). Scores are neither clamped nor checked. A result of the demonstration path
  has its scores in range: with \<^verbatim>\<open>Math.random\<close> giving a double from 0 up to but not
  including 1, \<^verbatim>\<open>overallMatchScore\<close> is an integer from 60 to 99, and the skill scores are 85,
  75 and 60. Every other result is the value \<^verbatim>\<open>JSON.parse\<close> gives for a non-empty text that
  the provider returned, so its scores are the provider's.
\<close>

theorem scores_as_provided:
  assumes "screenResume env resume jdText jdFile model provider w = (Inr r, w1)"
    and "\<forall>n. 0 \<le> Math_random env n \<and> Math_random env n < 1
             \<and> to_double (Math_random env n) = Finite (Math_random env n)"
  shows "(is_mock resume \<longrightarrow>
            scores_in_range r
          \<and> (\<exists>k. js_get ''overallMatchScore'' r = Some (JNumber (Finite (of_int k)))
                 \<and> 60 \<le> k \<and> k \<le> 99)
          \<and> skill_scores r =
              [Some (JNumber (Finite 85)), Some (JNumber (Finite 75)), Some (JNumber (Finite 60))])
       \<and> (\<not> is_mock resume \<longrightarrow>
            (\<exists>n req t. respond env n req = Inr (Some t) \<and> t \<noteq> [] \<and> JSON_parse env t = Some r))"
proof -
  have demo: "scores_in_range r
          \<and> (\<exists>k. js_get ''overallMatchScore'' r = Some (JNumber (Finite (of_int k)))
                 \<and> 60 \<le> k \<and> k \<le> 99)
          \<and> skill_scores r =
              [Some (JNumber (Finite 85)), Some (JNumber (Finite 75)), Some (JNumber (Finite 60))]"
    if "is_mock resume"
  proof -
    from that assms(1) have r: "r = generateMockResult (Math_random env (draws w))
                 (case file resume of None \<Rightarrow> ''Candidate''
                  | Some n \<Rightarrow> if n = [] then ''Candidate'' else n)"
      by (simp add: screenResume_mock_path)
    from assms(2) have "0 \<le> Math_random env (draws w)" "Math_random env (draws w) < 1"
      "to_double (Math_random env (draws w)) = Finite (Math_random env (draws w))"
      by simp_all
    from mock_scores [OF this] show ?thesis unfolding r .
  qed
  have live: "\<exists>n req t. respond env n req = Inr (Some t) \<and> t \<noteq> [] \<and> JSON_parse env t = Some r"
    if nm: "\<not> is_mock resume"
  proof -
    from assms(1) nm obtain data jd where d: "base64 resume = Some data" "data \<noteq> []"
      and j: "jdContext_of env provider jdText jdFile = Inr jd"
      by (auto simp add: screenResume_def is_mock_def split: option.splits if_splits sum.splits)
    from assms(1) screenResume_provider_path [OF nm d j]
    have "retryOperation setTimeout (operation_of env resume data jdFile model provider jd) 2 1000 w
          = (Inr r, w1)" by simp
    from retry_Inr_origin [OF this] obtain s0 where
      "operation_of env resume data jdFile model provider jd s0 = (Inr r, w1)" ..
    from operation_Inr_parsed [OF this] show ?thesis .
  qed
  from demo live show ?thesis by blast
qed

text \<open>
  C5 (amended). A PDF job description reaches Gemini inline and reaches OpenAI as the
  placeholder text in the job description context, and the request is sent. A PDF resume
  reaches Gemini inline. A PDF resume with OpenAI is refused: every attempt fails, before any
  request, with the error \<^verbatim>\<open>OpenAI mode currently supports DOCX and Text files only. Please use
  Gemini for PDF resumes.\<close>, and \<^verbatim>\<open>screenResume\<close> fails with that error after its two retries.
\<close>

theorem pdf_documents:
  "(mimeType resume = pdf_mime \<longrightarrow>
      gemini_parts env resume data jdFile jd =
        Inr (InlineData pdf_mime (Some data)
             # (case jdFile of None \<Rightarrow> []
                | Some f \<Rightarrow> if mimeType f = pdf_mime then [InlineData pdf_mime (base64 f)] else [])
             @ [Text (getCommonPrompt jd)]))
   \<and> (jdFile = Some f \<and> mimeType f = pdf_mime
        \<and> gemini_parts env resume data jdFile jd = Inr parts \<longrightarrow>
      InlineData pdf_mime (base64 f) \<in> set parts)
   \<and> (truthy (API_KEY env) \<and> gemini_parts env resume data jdFile jd = Inr parts \<longrightarrow>
      requests (snd (operation_of env resume data jdFile model gemini jd w)) =
        requests w @ [generateContent model parts])
   \<and> (attached jdFile = Some (f, b) \<and> mimeType f = pdf_mime \<longrightarrow>
      jdContext_of env openai jdText jdFile =
        Inr (''Job Description Context:\<newline>''
             @ ''(Attached JD is a PDF - Please copy text for better results)''))
   \<and> (truthy (OPENAI_API_KEY env) \<and> openai_resume_text env resume data = Inr body \<longrightarrow>
      requests (snd (operation_of env resume data jdFile model openai jd w)) =
        requests w @ [chat_completions_create model (openai_messages jd body)])
   \<and> (mimeType resume = pdf_mime \<and> \<not> is_mock resume \<and> base64 resume = Some data \<and> data \<noteq> []
        \<and> jdContext_of env openai jdText jdFile = Inr jd \<and> truthy (OPENAI_API_KEY env) \<longrightarrow>
      screenResume env resume jdText jdFile model openai w =
        (Inl (Error ''OpenAI mode currently supports DOCX and Text files only. Please use Gemini for PDF resumes.''),
         w\<lparr>timeouts := timeouts w @ [1000, 2000]\<rparr>))"
proof -
  have a: "gemini_parts env resume data jdFile jd =
        Inr (InlineData pdf_mime (Some data)
             # (case jdFile of None \<Rightarrow> []
                | Some f \<Rightarrow> if mimeType f = pdf_mime then [InlineData pdf_mime (base64 f)] else [])
             @ [Text (getCommonPrompt jd)])"
    if "mimeType resume = pdf_mime"
    using that mime_distinct by (simp add: gemini_parts_def split: option.splits)
  have b: "InlineData pdf_mime (base64 f) \<in> set parts"
    if "jdFile = Some f \<and> mimeType f = pdf_mime \<and> gemini_parts env resume data jdFile jd = Inr parts"
    using that by (auto simp add: gemini_parts_def Let_def split: if_splits sum.splits)
  have c: "requests (snd (operation_of env resume data jdFile model gemini jd w)) =
        requests w @ [generateContent model parts]"
    if "truthy (API_KEY env) \<and> gemini_parts env resume data jdFile jd = Inr parts"
    using that
    by (simp add: operation_of_def gemini_operation_def send_def split: sum.splits)
  have d: "jdContext_of env openai jdText jdFile =
        Inr (''Job Description Context:\<newline>''
             @ ''(Attached JD is a PDF - Please copy text for better results)'')"
    if "attached jdFile = Some (f, b) \<and> mimeType f = pdf_mime"
    using that mime_distinct by (simp add: jdContext_of_def)
  have e: "requests (snd (operation_of env resume data jdFile model openai jd w)) =
        requests w @ [chat_completions_create model (openai_messages jd body)]"
    if "truthy (OPENAI_API_KEY env) \<and> openai_resume_text env resume data = Inr body"
    using that
    by (simp add: operation_of_def openai_operation_def send_def split: sum.splits)
  have f: "screenResume env resume jdText jdFile model openai w =
        (Inl (Error ''OpenAI mode currently supports DOCX and Text files only. Please use Gemini for PDF resumes.''),
         w\<lparr>timeouts := timeouts w @ [1000, 2000]\<rparr>)"
    if h: "mimeType resume = pdf_mime \<and> \<not> is_mock resume \<and> base64 resume = Some data \<and> data \<noteq> []
        \<and> jdContext_of env openai jdText jdFile = Inr jd \<and> truthy (OPENAI_API_KEY env)"
  proof -
    from h have "\<forall>w. operation_of env resume data jdFile model openai jd w =
        (Inl (Error ''OpenAI mode currently supports DOCX and Text files only. Please use Gemini for PDF resumes.''), w)"
      by (simp add: operation_of_def openai_operation_def openai_pdf_refused)
    from retry_constant_failure [OF this] h show ?thesis
      by (simp add: screenResume_provider_path)
  qed
  from a b c d e f show ?thesis by blast
qed

lemma blank_Nil: "blank []"
  by (simp add: blank_def)

text \<open>
  C9 (amended). \<^verbatim>\<open>screenResume\<close> has no check of the media type. For Gemini a resume of any
  declared type other than the word-processing type is put inline under that type, and
  preparing the parts fails only for a word-processing document without non-blank text
  (\<^verbatim>\<open>Empty DOCX\<close>). For OpenAI preparing the resume text fails exactly for a PDF, for a
  word-processing document or a decoded content that is blank, and when \<^verbatim>\<open>atob\<close> rejects the
  content; a resume of any other type is decoded and sent as text.
\<close>

theorem media_type_not_checked:
  "(gemini_parts env resume data jdFile jd = Inl e \<longleftrightarrow>
      mimeType resume = docx_mime \<and> blank (extractTextFromDocx env data)
      \<and> e = Error ''Empty DOCX'')
   \<and> (mimeType resume \<noteq> docx_mime \<longrightarrow>
        (\<exists>rest. gemini_parts env resume data jdFile jd =
                  Inr (InlineData (mimeType resume) (Some data) # rest)))
   \<and> (openai_resume_text env resume data = Inl e \<longleftrightarrow>
        (mimeType resume = pdf_mime
         \<and> e = Error ''OpenAI mode currently supports DOCX and Text files only. Please use Gemini for PDF resumes.'')
      \<or> (mimeType resume = docx_mime \<and> blank (extractTextFromDocx env data)
         \<and> e = Error ''Could not extract text from resume for OpenAI processing.'')
      \<or> (mimeType resume \<noteq> pdf_mime \<and> mimeType resume \<noteq> docx_mime
         \<and> (atob env data = Inl e
            \<or> (\<exists>t. atob env data = Inr t \<and> blank t
                  \<and> e = Error ''Could not extract text from resume for OpenAI processing.''))))
   \<and> (mimeType resume \<noteq> pdf_mime \<and> mimeType resume \<noteq> docx_mime
        \<and> atob env data = Inr t \<and> \<not> blank t \<longrightarrow>
        openai_resume_text env resume data = Inr t)"
proof -
  have a: "gemini_parts env resume data jdFile jd = Inl e \<longleftrightarrow>
      mimeType resume = docx_mime \<and> blank (extractTextFromDocx env data)
      \<and> e = Error ''Empty DOCX''"
    using blank_Nil by (auto simp add: gemini_parts_def Let_def split: if_splits)
  have b: "\<exists>rest. gemini_parts env resume data jdFile jd =
                  Inr (InlineData (mimeType resume) (Some data) # rest)"
    if "mimeType resume \<noteq> docx_mime"
    using that by (simp add: gemini_parts_def)
  have c: "openai_resume_text env resume data = Inl e \<longleftrightarrow>
        (mimeType resume = pdf_mime
         \<and> e = Error ''OpenAI mode currently supports DOCX and Text files only. Please use Gemini for PDF resumes.'')
      \<or> (mimeType resume = docx_mime \<and> blank (extractTextFromDocx env data)
         \<and> e = Error ''Could not extract text from resume for OpenAI processing.'')
      \<or> (mimeType resume \<noteq> pdf_mime \<and> mimeType resume \<noteq> docx_mime
         \<and> (atob env data = Inl e
            \<or> (\<exists>t. atob env data = Inr t \<and> blank t
                  \<and> e = Error ''Could not extract text from resume for OpenAI processing.'')))"
    using mime_distinct
    by (auto simp add: openai_resume_text_def Let_def split: if_splits sum.splits)
  have d: "openai_resume_text env resume data = Inr t"
    if "mimeType resume \<noteq> pdf_mime \<and> mimeType resume \<noteq> docx_mime
        \<and> atob env data = Inr t \<and> \<not> blank t"
    using that by (simp add: openai_resume_text_def)
  from a b c d show ?thesis by blast
qed

section \<open>The batch driver and the shortlist\<close>

lemma screening_loop_lengths:
  "screening_loop env jdText jd model provider i items rs fs w = ((rs', fs'), w') \<Longrightarrow>
   length rs' + length fs' = length rs + length fs + length items"
proof (induction items arbitrary: i rs fs w)
  case Nil
  then show ?case by simp
next
  case (Cons item items)
  obtain r w1 where step: "screenResume env item jdText jd model provider w = (r, w1)"
    by (cases "screenResume env item jdText jd model provider w")
  show ?case
  proof (cases r)
    case (Inl e)
    with Cons.prems step
    have "screening_loop env jdText jd model provider (i + 1) items rs
            (fs @ [failure_entry (fileName_of i item) e]) w1 = ((rs', fs'), w')"
      by simp
    from Cons.IH [OF this] show ?thesis by simp
  next
    case (Inr v)
    with Cons.prems step
    have "screening_loop env jdText jd model provider (i + 1) items (rs @ [v]) fs w1 =
            ((rs', fs'), w')"
      by simp
    from Cons.IH [OF this] show ?thesis by simp
  qed
qed

lemma handleScreening_Inr:
  assumes "handleScreening env resumes jdMode jdText jdFile model provider w = (Inr (rs, fs), w')"
  shows "screening_loop env jdText (if jdMode = FILE then Some jdFile else None)
           model provider 0 resumes [] [] w = ((rs, fs), w')"
  using assms
  by (auto simp add: handleScreening_def split: if_splits prod.splits)

text \<open>
  C3. A run of \<^verbatim>\<open>handleScreening\<close> that ends without a batch-level error returns a result
  list and a failure list whose lengths add up to the number of resumes. In the loop an item
  whose screening fails adds one entry to the failure list, an item whose screening succeeds
  adds one entry to the result list, and in both cases the loop goes on with the next item.
\<close>

theorem batch_partition:
  "(handleScreening env resumes jdMode jdText jdFile model provider w = (Inr (results, manifest), w')
      \<longrightarrow> length results + length manifest = length resumes)
   \<and> (screenResume env item jdText jd model provider w = (Inl e, w1) \<longrightarrow>
        screening_loop env jdText jd model provider i (item # rest) newResults failedFiles w =
        screening_loop env jdText jd model provider (i + 1) rest
          newResults (failedFiles @ [failure_entry (fileName_of i item) e]) w1)
   \<and> (screenResume env item jdText jd model provider w = (Inr analysis, w1) \<longrightarrow>
        screening_loop env jdText jd model provider i (item # rest) newResults failedFiles w =
        screening_loop env jdText jd model provider (i + 1) rest
          (newResults @ [analysis]) failedFiles w1)"
proof -
  have "length results + length manifest = length resumes"
    if "handleScreening env resumes jdMode jdText jdFile model provider w =
          (Inr (results, manifest), w')"
    using screening_loop_lengths [OF handleScreening_Inr [OF that]] by simp
  then show ?thesis by simp
qed

text \<open>
  C6. Once the loop has run over a non-empty batch: when the result list is empty, the failure
  list is not, and the whole run fails with the single error
  \<^verbatim>\<open>Failed to process all resumes. Issues:\<close> followed by the entries of the failure list, one
  per line; when some item succeeded, the run returns the results together with the failure
  list.
\<close>

theorem all_items_failed:
  assumes "resumes \<noteq> []"
    and "\<not> (jdMode = TEXT \<and> blank jdText)"
    and "\<not> (jdMode = FILE \<and> file jdFile = None)"
    and "screening_loop env jdText (if jdMode = FILE then Some jdFile else None)
           model provider 0 resumes [] [] w = ((results, manifest), w')"
  shows "(results = [] \<longrightarrow>
            manifest \<noteq> []
          \<and> handleScreening env resumes jdMode jdText jdFile model provider w =
              (Inl (''Failed to process all resumes. Issues:\<newline>'' @ join ''\<newline>'' manifest), w'))
       \<and> (results \<noteq> [] \<longrightarrow>
            handleScreening env resumes jdMode jdText jdFile model provider w =
              (Inr (results, manifest), w'))"
proof -
  from screening_loop_lengths [OF assms(4)]
  have "length results + length manifest = length resumes" by simp
  with assms(1) have "results = [] \<Longrightarrow> manifest \<noteq> []" by auto
  with assms show ?thesis
    by (auto simp add: handleScreening_def all_failed_message_def)
qed

lemma act_distinct:
  "distinct (map (\<lambda>c. identity_of (heap c)) prev) \<Longrightarrow>
   distinct (map (\<lambda>c. identity_of (heap c)) (act heap prev a))"
proof (cases a)
  case (Shortlist c)
  assume d: "distinct (map (\<lambda>c. identity_of (heap c)) prev)"
  show ?thesis
  proof (cases "list_ex (\<lambda>x. candidateName (heap x) = candidateName (heap c)
                             \<and> email (heap x) = email (heap c)) prev")
    case True
    with d Shortlist show ?thesis by (simp add: handleShortlist_def)
  next
    case False
    then have "identity_of (heap c) \<notin> set (map (\<lambda>c. identity_of (heap c)) prev)"
      by (auto simp add: list_ex_iff identity_of_def)
    with d False Shortlist show ?thesis by (simp add: handleShortlist_def)
  qed
next
  case (Remove c confirmed)
  assume "distinct (map (\<lambda>c. identity_of (heap c)) prev)"
  with Remove show ?thesis
    by (simp add: handleRemoveFromShortlist_def distinct_map_filter)
qed

lemma foldl_act_distinct:
  "distinct (map (\<lambda>c. identity_of (heap c)) prev) \<Longrightarrow>
   distinct (map (\<lambda>c. identity_of (heap c)) (foldl (act heap) prev actions))"
  by (induction actions arbitrary: prev) (simp_all add: act_distinct)

text \<open>
  C10. After any sequence of shortlist and remove actions, starting from the empty shortlist,
  no two entries of the shortlist have the same candidate name and email. Shortlisting a
  candidate whose name and email are already present leaves the shortlist as it is; otherwise
  the candidate is appended at the end.
\<close>

theorem shortlist_no_duplicates:
  "distinct (map (\<lambda>c. identity_of (heap c)) (shortlist_after heap actions))
   \<and> handleShortlist heap candidate prev =
       (if identity_of (heap candidate) \<in> set (map (\<lambda>c. identity_of (heap c)) prev)
        then prev else prev @ [candidate])"
proof -
  have "list_ex (\<lambda>c. candidateName (heap c) = candidateName (heap candidate)
                    \<and> email (heap c) = email (heap candidate)) prev
        \<longleftrightarrow> identity_of (heap candidate) \<in> set (map (\<lambda>c. identity_of (heap c)) prev)"
    unfolding list_ex_iff identity_of_def set_map image_iff prod.inject by metis
  then show ?thesis
    using foldl_act_distinct [of heap "[]" actions]
    by (simp add: shortlist_after_def handleShortlist_def)
qed

section \<open>The claims on concrete inputs\<close>

lemma not_blank: "\<not> blank ''Engineer''"
  by (simp add: blank_def js_space_def)

lemma text_jd:
  "jdContext_of env provider ''Engineer'' None = Inr ''Job Description Context:\<newline>Engineer''"
  by (simp add: jdContext_of_def attached_def not_blank)

lemma reply_parses: "JSON_parse demo_env reply_text = Some reply_value"
  by (simp add: demo_env_def)

lemma reply_not_empty: "reply_text \<noteq> []"
  by (simp add: reply_text_def)

lemma bracket_refused:
  "units ''['' \<noteq> []" "JSON_parse demo_env (units ''['') = None"
  "syntax_error_message demo_env x = ''Unexpected end of JSON input''"
  by (simp_all add: demo_env_def reply_text_def)

lemma half_is_double: "to_double (1 / 2) = Finite (1 / 2)"
  by code_simp

lemma mock_score_half: "mock_score (1 / 2) = Finite 80"
  by code_simp

lemma text_resume_facts:
  "\<not> is_mock text_resume" "base64 text_resume = Some ''SmFuZSBEb2U=''"
  "mimeType text_resume = ''text/plain''"
  by (simp_all add: is_mock_def text_resume_def)

lemma demo_env_facts:
  "truthy (API_KEY demo_env)" "truthy (OPENAI_API_KEY demo_env)"
  "respond demo_env n req = Inr (Some reply_text)"
  "atob demo_env ''SmFuZSBEb2U='' = Inr ''Jane Doe''"
  "Math_random demo_env n = 1 / 2"
  by (simp_all add: demo_env_def truthy_def)

lemma text_resume_parts:
  "gemini_parts demo_env text_resume ''SmFuZSBEb2U='' None jd =
     Inr [InlineData ''text/plain'' (Some ''SmFuZSBEb2U=''), Text (getCommonPrompt jd)]"
  by (simp add: gemini_parts_def text_resume_def docx_mime_def)

lemma text_resume_text:
  "openai_resume_text demo_env text_resume ''SmFuZSBEb2U='' = Inr ''Jane Doe''"
  by (simp add: openai_resume_text_def text_resume_facts demo_env_facts pdf_mime_def docx_mime_def
        blank_def js_space_def)

lemma gemini_run:
  "screenResume demo_env text_resume ''Engineer'' None ''gemini-2.5-flash'' gemini world0 =
     (Inr reply_value,
      world0\<lparr>requests := requests world0 @
        [generateContent ''gemini-2.5-flash''
           [InlineData ''text/plain'' (Some ''SmFuZSBEb2U=''),
            Text (getCommonPrompt ''Job Description Context:\<newline>Engineer'')]]\<rparr>)"
proof -
  have "operation_of demo_env text_resume ''SmFuZSBEb2U='' None ''gemini-2.5-flash'' gemini
          ''Job Description Context:\<newline>Engineer'' world0 =
        (Inr reply_value,
         world0\<lparr>requests := requests world0 @
           [generateContent ''gemini-2.5-flash''
              [InlineData ''text/plain'' (Some ''SmFuZSBEb2U=''),
               Text (getCommonPrompt ''Job Description Context:\<newline>Engineer'')]]\<rparr>)"
    by (rule gemini_first_attempt [where t = reply_text])
       (simp_all add: demo_env_facts text_resume_parts reply_not_empty reply_parses)
  then show ?thesis
    using screenResume_provider_path [OF text_resume_facts(1,2) _ text_jd [where provider = gemini]]
    by (simp add: retryOperation_success)
qed

lemma openai_run:
  "screenResume demo_env text_resume ''Engineer'' None ''gpt-4o'' openai world0 =
     (Inr reply_value,
      world0\<lparr>requests := requests world0 @
        [chat_completions_create ''gpt-4o''
           (openai_messages ''Job Description Context:\<newline>Engineer'' ''Jane Doe'')]\<rparr>)"
proof -
  have "operation_of demo_env text_resume ''SmFuZSBEb2U='' None ''gpt-4o'' openai
          ''Job Description Context:\<newline>Engineer'' world0 =
        (Inr reply_value,
         world0\<lparr>requests := requests world0 @
           [chat_completions_create ''gpt-4o''
              (openai_messages ''Job Description Context:\<newline>Engineer'' ''Jane Doe'')]\<rparr>)"
    by (rule openai_first_attempt [where t = reply_text])
       (simp_all add: demo_env_facts text_resume_text reply_not_empty reply_parses)
  then show ?thesis
    using screenResume_provider_path [OF text_resume_facts(1,2) _ text_jd [where provider = openai]]
    by (simp add: retryOperation_success)
qed

lemma reply_value_facts:
  "js_get ''recommendation'' reply_value = Some (JString (units ''Maybe''))"
  "js_get ''overallMatchScore'' reply_value = Some (JNumber (Finite 150))"
  "skill_scores reply_value = [Some (JNumber (Finite (- 5)))]"
  "\<not> recommendation_in_enum reply_value"
  "\<not> scores_in_range reply_value"
  by (simp_all add: js_get_def reply_value_def recommendation_in_enum_def recommendations_def
        scores_in_range_def score_in_range_def skill_scores_def)

text \<open>
  Against C1 as stated: the provider answers with \<^verbatim>\<open>"recommendation": "Maybe"\<close>, and with
  either provider \<^verbatim>\<open>screenResume\<close> returns the parsed object, whose recommendation is none
  of the four values.
\<close>

theorem unlisted_recommendation_returned:
  "JSON_parse demo_env reply_text = Some reply_value
   \<and> js_get ''recommendation'' reply_value = Some (JString (units ''Maybe''))
   \<and> \<not> recommendation_in_enum reply_value
   \<and> fst (screenResume demo_env text_resume ''Engineer'' None ''gemini-2.5-flash'' gemini world0)
       = Inr reply_value
   \<and> fst (screenResume demo_env text_resume ''Engineer'' None ''gpt-4o'' openai world0)
       = Inr reply_value"
  by (simp add: reply_parses reply_value_facts gemini_run openai_run)

text \<open>
  Against C2 as stated: the same answer carries \<^verbatim>\<open>"overallMatchScore": 150\<close> and a skill score
  of \<open>-5\<close>, and is returned with these scores.
\<close>

theorem out_of_range_scores_returned:
  "js_get ''overallMatchScore'' reply_value = Some (JNumber (Finite 150))
   \<and> skill_scores reply_value = [Some (JNumber (Finite (- 5)))]
   \<and> \<not> scores_in_range reply_value
   \<and> fst (screenResume demo_env text_resume ''Engineer'' None ''gemini-2.5-flash'' gemini world0)
       = Inr reply_value
   \<and> fst (screenResume demo_env text_resume ''Engineer'' None ''gpt-4o'' openai world0)
       = Inr reply_value"
  by (simp add: reply_value_facts gemini_run openai_run)

text \<open>
  The amended C1 at the plain-text resume, for Gemini and for OpenAI: the answer
  \<open>reply_text\<close> is returned parsed, no text gives the error for an empty response, and the
  text \<^verbatim>\<open>[\<close> gives the \<^verbatim>\<open>SyntaxError\<close>.
\<close>

theorem response_returned_unvalidated_witness:
  "\<not> is_mock text_resume
   \<and> base64 text_resume = Some ''SmFuZSBEb2U=''
   \<and> jdContext_of demo_env gemini ''Engineer'' None = Inr ''Job Description Context:\<newline>Engineer''
   \<and> jdContext_of demo_env openai ''Engineer'' None = Inr ''Job Description Context:\<newline>Engineer''
   \<and> reply_text \<noteq> [] \<and> JSON_parse demo_env reply_text = Some reply_value
   \<and> truthy (API_KEY demo_env)
   \<and> gemini_parts demo_env text_resume ''SmFuZSBEb2U='' None ''Job Description Context:\<newline>Engineer''
       = Inr [InlineData ''text/plain'' (Some ''SmFuZSBEb2U=''),
              Text (getCommonPrompt ''Job Description Context:\<newline>Engineer'')]
   \<and> respond demo_env (length (requests world0))
        (generateContent ''gemini-2.5-flash''
           [InlineData ''text/plain'' (Some ''SmFuZSBEb2U=''),
            Text (getCommonPrompt ''Job Description Context:\<newline>Engineer'')])
       = Inr (Some reply_text)
   \<and> screenResume demo_env text_resume ''Engineer'' None ''gemini-2.5-flash'' gemini world0 =
       (Inr reply_value,
        world0\<lparr>requests := requests world0 @
          [generateContent ''gemini-2.5-flash''
             [InlineData ''text/plain'' (Some ''SmFuZSBEb2U=''),
              Text (getCommonPrompt ''Job Description Context:\<newline>Engineer'')]]\<rparr>)
   \<and> truthy (OPENAI_API_KEY demo_env)
   \<and> openai_resume_text demo_env text_resume ''SmFuZSBEb2U='' = Inr ''Jane Doe''
   \<and> respond demo_env (length (requests world0))
        (chat_completions_create ''gpt-4o''
           (openai_messages ''Job Description Context:\<newline>Engineer'' ''Jane Doe''))
       = Inr (Some reply_text)
   \<and> screenResume demo_env text_resume ''Engineer'' None ''gpt-4o'' openai world0 =
       (Inr reply_value,
        world0\<lparr>requests := requests world0 @
          [chat_completions_create ''gpt-4o''
             (openai_messages ''Job Description Context:\<newline>Engineer'' ''Jane Doe'')]\<rparr>)
   \<and> parse_response demo_env ''Empty response from Gemini'' (Some reply_text) = Inr reply_value
   \<and> parse_response demo_env ''Empty response from Gemini'' None
       = Inl (Error ''Empty response from Gemini'')
   \<and> units ''['' \<noteq> [] \<and> JSON_parse demo_env (units ''['') = None
   \<and> parse_response demo_env ''No response from OpenAI'' (Some (units ''[''))
       = Inl (Exn ''SyntaxError'' ''Unexpected end of JSON input'')
   \<and> operation_of demo_env text_resume ''SmFuZSBEb2U='' None ''gemini-2.5-flash'' gemini
        ''Job Description Context:\<newline>Engineer'' world0 =
       (parse_response demo_env ''Empty response from Gemini'' (Some reply_text),
        world0\<lparr>requests := requests world0 @
          [generateContent ''gemini-2.5-flash''
             [InlineData ''text/plain'' (Some ''SmFuZSBEb2U=''),
              Text (getCommonPrompt ''Job Description Context:\<newline>Engineer'')]]\<rparr>)
   \<and> operation_of demo_env text_resume ''SmFuZSBEb2U='' None ''gpt-4o'' openai
        ''Job Description Context:\<newline>Engineer'' world0 =
       (parse_response demo_env ''No response from OpenAI'' (Some reply_text),
        world0\<lparr>requests := requests world0 @
          [chat_completions_create ''gpt-4o''
             (openai_messages ''Job Description Context:\<newline>Engineer'' ''Jane Doe'')]\<rparr>)"
proof -
  have d: "''SmFuZSBEb2U='' \<noteq> []" by simp
  note g = response_returned_unvalidated
    [OF text_resume_facts(1,2) d text_jd [where provider = gemini] reply_not_empty reply_parses,
     where parts = "[InlineData ''text/plain'' (Some ''SmFuZSBEb2U=''),
                     Text (getCommonPrompt ''Job Description Context:\<newline>Engineer'')]"
       and w = world0 and model = "''gemini-2.5-flash''"
       and m = "''Empty response from Gemini''" and answer = "Some reply_text" and v' = reply_value
       and e = "Error ''Empty response from Gemini''"]
  note oa = response_returned_unvalidated
    [OF text_resume_facts(1,2) d text_jd [where provider = openai] reply_not_empty reply_parses,
     where body = "''Jane Doe''" and w = world0 and model = "''gpt-4o''"
       and m = "''No response from OpenAI''" and answer = "Some reply_text" and v' = reply_value
       and e = "Error ''No response from OpenAI''"]
  note n = response_returned_unvalidated
    [OF text_resume_facts(1,2) d text_jd [where provider = gemini] reply_not_empty reply_parses,
     where m = "''Empty response from Gemini''" and answer = None
       and e = "Error ''Empty response from Gemini''"]
  note x = response_returned_unvalidated
    [OF text_resume_facts(1,2) d text_jd [where provider = openai] reply_not_empty reply_parses,
     where m = "''No response from OpenAI''" and answer = "Some (units ''['')"
       and e = "Exn ''SyntaxError'' ''Unexpected end of JSON input''"]
  have a: "parse_response demo_env ''Empty response from Gemini'' (Some reply_text) = Inr reply_value"
    using g by (simp add: reply_not_empty reply_parses)
  have b: "parse_response demo_env ''No response from OpenAI'' (Some reply_text) = Inr reply_value"
    using oa by (simp add: reply_not_empty reply_parses)
  have c: "parse_response demo_env ''Empty response from Gemini'' None
       = Inl (Error ''Empty response from Gemini'')"
    using n by simp
  have e: "parse_response demo_env ''No response from OpenAI'' (Some (units ''[''))
       = Inl (Exn ''SyntaxError'' ''Unexpected end of JSON input'')"
    using x by (simp add: bracket_refused)
  from g oa show ?thesis
    by (simp add: a b c e text_resume_facts text_jd reply_not_empty reply_parses demo_env_facts
          text_resume_parts text_resume_text bracket_refused)
qed

lemma mock_resume_facts:
  "is_mock mock_resume" "file mock_resume = Some ''Jane_Doe.pdf''"
  by (simp_all add: is_mock_def mock_resume_def)

lemma mock_run:
  "screenResume demo_env mock_resume jdText jdFile model provider world0 =
     (Inr (generateMockResult (1 / 2) ''Jane_Doe.pdf''),
      \<lparr>requests = [], timeouts = [1500], draws = 1\<rparr>)"
  by (simp add: screenResume_mock_path mock_resume_facts demo_env_facts world0_def)

lemma no_file_run:
  "screenResume env no_file jdText jdFile model provider w =
     (Inl (Error ''Resume file content is missing.''), w)"
  by (simp add: screenResume_def no_file_def)

text \<open>
  The amended C2 at the demonstration item (the draw one half gives the score 80) and at the
  plain-text resume.
\<close>

theorem scores_as_provided_witness:
  "screenResume demo_env mock_resume ''Engineer'' None ''gemini-2.5-flash'' gemini world0 =
     (Inr (generateMockResult (1 / 2) ''Jane_Doe.pdf''),
      \<lparr>requests = [], timeouts = [1500], draws = 1\<rparr>)
   \<and> (\<forall>n. 0 \<le> Math_random demo_env n \<and> Math_random demo_env n < 1
          \<and> to_double (Math_random demo_env n) = Finite (Math_random demo_env n))
   \<and> is_mock mock_resume
   \<and> scores_in_range (generateMockResult (1 / 2) ''Jane_Doe.pdf'')
   \<and> js_get ''overallMatchScore'' (generateMockResult (1 / 2) ''Jane_Doe.pdf'')
       = Some (JNumber (Finite 80))
   \<and> skill_scores (generateMockResult (1 / 2) ''Jane_Doe.pdf'') =
       [Some (JNumber (Finite 85)), Some (JNumber (Finite 75)), Some (JNumber (Finite 60))]
   \<and> screenResume demo_env text_resume ''Engineer'' None ''gemini-2.5-flash'' gemini world0 =
       (Inr reply_value,
        world0\<lparr>requests := requests world0 @
          [generateContent ''gemini-2.5-flash''
             [InlineData ''text/plain'' (Some ''SmFuZSBEb2U=''),
              Text (getCommonPrompt ''Job Description Context:\<newline>Engineer'')]]\<rparr>)
   \<and> \<not> is_mock text_resume
   \<and> (\<exists>n req t. respond demo_env n req = Inr (Some t) \<and> t \<noteq> []
                  \<and> JSON_parse demo_env t = Some reply_value)"
proof -
  have r: "\<forall>n. 0 \<le> Math_random demo_env n \<and> Math_random demo_env n < 1
          \<and> to_double (Math_random demo_env n) = Finite (Math_random demo_env n)"
    by (simp add: demo_env_facts half_is_double)
  have s: "js_get ''overallMatchScore'' (generateMockResult (1 / 2) ''Jane_Doe.pdf'')
       = Some (JNumber (Finite 80))"
    by (simp add: mock_overall mock_score_half)
  note a = scores_as_provided
         [OF mock_run [where jdText = "''Engineer''" and jdFile = None
                         and model = "''gemini-2.5-flash''" and provider = gemini] r]
  note b = scores_as_provided [OF gemini_run r]
  from a have a1: "scores_in_range (generateMockResult (1 / 2) ''Jane_Doe.pdf'')"
    and a2: "skill_scores (generateMockResult (1 / 2) ''Jane_Doe.pdf'') =
       [Some (JNumber (Finite 85)), Some (JNumber (Finite 75)), Some (JNumber (Finite 60))]"
    by (simp_all add: mock_resume_facts)
  from b have b1: "\<exists>n req t. respond demo_env n req = Inr (Some t) \<and> t \<noteq> []
                  \<and> JSON_parse demo_env t = Some reply_value"
    by (simp add: text_resume_facts)
  from a1 a2 b1 r s show ?thesis
    by (simp add: mock_run mock_resume_facts gemini_run text_resume_facts)
qed

lemma show_nat_1: "show_nat (Suc 0) = ''1''"
  by code_simp

lemma show_nat_2: "show_nat (Suc (Suc 0)) = ''2''"
  by code_simp

lemma no_file_name: "fileName_of i no_file = ''Resume '' @ show_nat (i + 1)"
  by (simp add: fileName_of_def no_file_def)

lemma failure_entries:
  "failure_entry (fileName_of 0 no_file) (Error ''Resume file content is missing.'') =
     ''Resume 1 (Resume file content is missing.)''"
  "failure_entry (fileName_of (Suc 0) no_file) (Error ''Resume file content is missing.'') =
     ''Resume 2 (Resume file content is missing.)''"
  by (simp_all add: failure_entry_def no_file_name show_nat_1 show_nat_2)

lemma partial_loop:
  "screening_loop demo_env ''Engineer'' None ''gemini-2.5-flash'' gemini 0
     [mock_resume, no_file] [] [] world0 =
   (([generateMockResult (1 / 2) ''Jane_Doe.pdf''],
     [''Resume 2 (Resume file content is missing.)'']),
    \<lparr>requests = [], timeouts = [1500], draws = 1\<rparr>)"
  by (simp add: mock_run no_file_run failure_entries)

lemma failed_loop:
  "screening_loop demo_env ''Engineer'' None ''gemini-2.5-flash'' gemini 0
     [no_file, no_file] [] [] world0 =
   (([], [''Resume 1 (Resume file content is missing.)'',
          ''Resume 2 (Resume file content is missing.)'']), world0)"
  by (simp add: no_file_run failure_entries)

lemma demo_preflight:
  "\<not> (TEXT = TEXT \<and> blank ''Engineer'')" "\<not> (TEXT = FILE \<and> file no_file = None)"
  by (simp_all add: not_blank)

text \<open>
  C3 at a batch of two: the demonstration item succeeds, the item without content fails, and
  the run returns one result and one failure entry.
\<close>

theorem batch_partition_witness:
  "handleScreening demo_env [mock_resume, no_file] TEXT ''Engineer'' no_file
     ''gemini-2.5-flash'' gemini world0 =
     (Inr ([generateMockResult (1 / 2) ''Jane_Doe.pdf''],
           [''Resume 2 (Resume file content is missing.)'']),
      \<lparr>requests = [], timeouts = [1500], draws = 1\<rparr>)
   \<and> length [generateMockResult (1 / 2) ''Jane_Doe.pdf'']
       + length [''Resume 2 (Resume file content is missing.)'']
       = length [mock_resume, no_file]
   \<and> screenResume demo_env no_file ''Engineer'' None ''gemini-2.5-flash'' gemini world0 =
       (Inl (Error ''Resume file content is missing.''), world0)
   \<and> screening_loop demo_env ''Engineer'' None ''gemini-2.5-flash'' gemini 0
         (no_file # [mock_resume]) [] [] world0 =
       screening_loop demo_env ''Engineer'' None ''gemini-2.5-flash'' gemini (0 + 1)
         [mock_resume] [] ([] @ [failure_entry (fileName_of 0 no_file)
                                   (Error ''Resume file content is missing.'')]) world0
   \<and> screenResume demo_env mock_resume ''Engineer'' None ''gemini-2.5-flash'' gemini world0 =
       (Inr (generateMockResult (1 / 2) ''Jane_Doe.pdf''),
        \<lparr>requests = [], timeouts = [1500], draws = 1\<rparr>)
   \<and> screening_loop demo_env ''Engineer'' None ''gemini-2.5-flash'' gemini 0
         (mock_resume # [no_file]) [] [] world0 =
       screening_loop demo_env ''Engineer'' None ''gemini-2.5-flash'' gemini (0 + 1)
         [no_file] ([] @ [generateMockResult (1 / 2) ''Jane_Doe.pdf'']) []
         \<lparr>requests = [], timeouts = [1500], draws = 1\<rparr>"
proof -
  have h: "handleScreening demo_env [mock_resume, no_file] TEXT ''Engineer'' no_file
     ''gemini-2.5-flash'' gemini world0 =
     (Inr ([generateMockResult (1 / 2) ''Jane_Doe.pdf''],
           [''Resume 2 (Resume file content is missing.)'']),
      \<lparr>requests = [], timeouts = [1500], draws = 1\<rparr>)"
    using partial_loop by (simp add: handleScreening_def not_blank)
  note a = batch_partition
    [where env = demo_env and resumes = "[mock_resume, no_file]" and jdMode = TEXT
       and jdText = "''Engineer''" and jdFile = no_file and model = "''gemini-2.5-flash''"
       and provider = gemini and w = world0
       and results = "[generateMockResult (1 / 2) ''Jane_Doe.pdf'']"
       and manifest = "[''Resume 2 (Resume file content is missing.)'']"
       and w' = "\<lparr>requests = [], timeouts = [1500], draws = 1\<rparr>"
       and item = no_file and jd = None and e = "Error ''Resume file content is missing.''"
       and ?w1.0 = world0 and i = 0 and rest = "[mock_resume]" and newResults = "[]"
       and failedFiles = "[]"]
  note b = batch_partition
    [where env = demo_env and jdText = "''Engineer''" and model = "''gemini-2.5-flash''"
       and provider = gemini and w = world0
       and item = mock_resume and jd = None
       and analysis = "generateMockResult (1 / 2) ''Jane_Doe.pdf''"
       and ?w1.0 = "\<lparr>requests = [], timeouts = [1500], draws = 1\<rparr>"
       and i = 0 and rest = "[no_file]" and newResults = "[]" and failedFiles = "[]"]
  from a b show ?thesis
    by (simp add: h no_file_run mock_run)
qed

text \<open>
  C6 at a batch whose two items both fail, and at the batch of one success and one failure.
\<close>

theorem all_items_failed_witness:
  "[no_file, no_file] \<noteq> []
   \<and> \<not> (TEXT = TEXT \<and> blank ''Engineer'') \<and> \<not> (TEXT = FILE \<and> file no_file = None)
   \<and> screening_loop demo_env ''Engineer'' (if TEXT = FILE then Some no_file else None)
         ''gemini-2.5-flash'' gemini 0 [no_file, no_file] [] [] world0 =
       (([], [''Resume 1 (Resume file content is missing.)'',
              ''Resume 2 (Resume file content is missing.)'']), world0)
   \<and> handleScreening demo_env [no_file, no_file] TEXT ''Engineer'' no_file
         ''gemini-2.5-flash'' gemini world0 =
       (Inl (''Failed to process all resumes. Issues:\<newline>''
             @ join ''\<newline>'' [''Resume 1 (Resume file content is missing.)'',
                                    ''Resume 2 (Resume file content is missing.)'']), world0)
   \<and> screening_loop demo_env ''Engineer'' (if TEXT = FILE then Some no_file else None)
         ''gemini-2.5-flash'' gemini 0 [mock_resume, no_file] [] [] world0 =
       (([generateMockResult (1 / 2) ''Jane_Doe.pdf''],
         [''Resume 2 (Resume file content is missing.)'']),
        \<lparr>requests = [], timeouts = [1500], draws = 1\<rparr>)
   \<and> [generateMockResult (1 / 2) ''Jane_Doe.pdf''] \<noteq> []
   \<and> handleScreening demo_env [mock_resume, no_file] TEXT ''Engineer'' no_file
         ''gemini-2.5-flash'' gemini world0 =
       (Inr ([generateMockResult (1 / 2) ''Jane_Doe.pdf''],
             [''Resume 2 (Resume file content is missing.)'']),
        \<lparr>requests = [], timeouts = [1500], draws = 1\<rparr>)"
proof -
  have n1: "[no_file, no_file] \<noteq> []" and n2: "[mock_resume, no_file] \<noteq> []" by simp_all
  have f: "screening_loop demo_env ''Engineer'' (if TEXT = FILE then Some no_file else None)
         ''gemini-2.5-flash'' gemini 0 [no_file, no_file] [] [] world0 =
       (([], [''Resume 1 (Resume file content is missing.)'',
              ''Resume 2 (Resume file content is missing.)'']), world0)"
    using failed_loop by simp
  have p: "screening_loop demo_env ''Engineer'' (if TEXT = FILE then Some no_file else None)
         ''gemini-2.5-flash'' gemini 0 [mock_resume, no_file] [] [] world0 =
       (([generateMockResult (1 / 2) ''Jane_Doe.pdf''],
         [''Resume 2 (Resume file content is missing.)'']),
        \<lparr>requests = [], timeouts = [1500], draws = 1\<rparr>)"
    using partial_loop by simp
  from all_items_failed [OF n1 demo_preflight f] all_items_failed [OF n2 demo_preflight p]
  show ?thesis
    using f p by (simp add: not_blank)
qed

lemma no_key_env_facts:
  "\<not> truthy (API_KEY no_key_env)" "\<not> truthy (OPENAI_API_KEY no_key_env)"
  by (simp_all add: no_key_env_def truthy_def)

lemma counting_run:
  "retryOperation (probe_sleep (\<lambda>d s. s))
     (probed (\<lambda>s::nat. (Inl (Error (show_nat s)) :: exn + unit, Suc s))) 2 1000
     \<lparr>invocations = 0, raised = [], waited = [], inner = 0\<rparr> =
   (Inl (Error ''2''),
    \<lparr>invocations = 3, raised = [Error ''0'', Error ''1'', Error ''2''], waited = [1000, 2000],
     inner = 3\<rparr>)"
  by code_simp

text \<open>
  C7 at an operation that raises a different error at each attempt (the third is the one
  propagated), and at an environment without credentials.
\<close>

theorem failures_retried_alike_witness:
  "(\<forall>s::nat. isl (fst ((\<lambda>s. (Inl (Error (show_nat s)) :: exn + unit, Suc s)) s)))
   \<and> (0::int) \<le> 2
   \<and> retryOperation (probe_sleep (\<lambda>d s. s))
        (probed (\<lambda>s::nat. (Inl (Error (show_nat s)) :: exn + unit, Suc s))) 2 1000
        \<lparr>invocations = 0, raised = [], waited = [], inner = 0\<rparr> =
      (Inl (Error ''2''),
       \<lparr>invocations = 3, raised = [Error ''0'', Error ''1'', Error ''2''], waited = [1000, 2000],
        inner = 3\<rparr>)
   \<and> length [Error ''0'', Error ''1'', Error ''2''] = length ([] :: exn list) + 1 + nat 2
   \<and> (Inl (Error ''2'') :: exn + unit) = Inl (last [Error ''0'', Error ''1'', Error ''2''])
   \<and> \<not> is_mock text_resume \<and> base64 text_resume = Some ''SmFuZSBEb2U=''
   \<and> jdContext_of no_key_env gemini ''Engineer'' None = Inr ''Job Description Context:\<newline>Engineer''
   \<and> \<not> truthy (API_KEY no_key_env)
   \<and> screenResume no_key_env text_resume ''Engineer'' None ''gemini-2.5-flash'' gemini world0 =
       (Inl (Error ''Gemini API Key missing in environment variables.''),
        world0\<lparr>timeouts := timeouts world0 @ [1000, 2000]\<rparr>)
   \<and> jdContext_of no_key_env openai ''Engineer'' None = Inr ''Job Description Context:\<newline>Engineer''
   \<and> \<not> truthy (OPENAI_API_KEY no_key_env)
   \<and> screenResume no_key_env text_resume ''Engineer'' None ''gpt-4o'' openai world0 =
       (Inl (Error ''OpenAI API Key missing. Please configure OPENAI_API_KEY in backend/environment variables.''),
        world0\<lparr>timeouts := timeouts world0 @ [1000, 2000]\<rparr>)"
proof -
  note a = failures_retried_alike
    [where operation = "\<lambda>s::nat. (Inl (Error (show_nat s)) :: exn + unit, Suc s)"
       and retries = 2 and sleep = "\<lambda>d s. s" and delay = 1000
       and p = "\<lparr>invocations = 0, raised = [], waited = [], inner = 0\<rparr>"
       and resume = text_resume and data = "''SmFuZSBEb2U=''" and env = no_key_env
       and jdText = "''Engineer''" and jdFile = None
       and jd = "''Job Description Context:\<newline>Engineer''" and w = world0]
  from a [where model = "''gemini-2.5-flash''"] a [where model = "''gpt-4o''"]
  show ?thesis
    by (simp add: counting_run text_resume_facts text_jd no_key_env_facts)
qed

lemma pdf_resume_facts:
  "\<not> is_mock pdf_resume" "base64 pdf_resume = Some ''JVBERi0xLjQK''"
  "mimeType pdf_resume = pdf_mime"
  by (simp_all add: is_mock_def pdf_resume_def)

lemma pdf_jd_facts:
  "mimeType pdf_jd = pdf_mime" "base64 pdf_jd = Some ''JVBERi0xLjQK''"
  "attached (Some pdf_jd) = Some (pdf_jd, ''JVBERi0xLjQK'')"
  by (simp_all add: pdf_jd_def attached_def)

lemma pdf_jd_context:
  "jdContext_of env gemini jdText (Some pdf_jd) =
     Inr ''Job Description Context:\<newline>(See attached Job Description document)''"
  "jdContext_of env openai jdText (Some pdf_jd) =
     Inr ''Job Description Context:\<newline>(Attached JD is a PDF - Please copy text for better results)''"
  using mime_distinct by (simp_all add: jdContext_of_def pdf_jd_facts)

lemma openai_pdf_run:
  assumes "jdContext_of demo_env openai jdText jdFile = Inr jd"
  shows "screenResume demo_env pdf_resume jdText jdFile model openai world0 =
     (Inl (Error ''OpenAI mode currently supports DOCX and Text files only. Please use Gemini for PDF resumes.''),
      \<lparr>requests = [], timeouts = [1000, 2000], draws = 0\<rparr>)"
proof -
  have "\<forall>w. operation_of demo_env pdf_resume ''JVBERi0xLjQK'' jdFile model openai jd w =
        (Inl (Error ''OpenAI mode currently supports DOCX and Text files only. Please use Gemini for PDF resumes.''), w)"
    by (simp add: operation_of_def openai_operation_def openai_pdf_refused pdf_resume_facts
          demo_env_facts)
  from retry_constant_failure [OF this, of world0]
  show ?thesis
    using screenResume_provider_path [OF pdf_resume_facts(1,2) _ assms, of model world0]
    by (simp add: world0_def)
qed

text \<open>
  Against C5 as stated: a PDF resume with OpenAI does not continue in a degraded mode; the call
  fails and no request is sent.
\<close>

theorem pdf_resume_refused_by_openai:
  "mimeType pdf_resume = ''application/pdf''
   \<and> screenResume demo_env pdf_resume ''Engineer'' None ''gpt-4o'' openai world0 =
       (Inl (Error ''OpenAI mode currently supports DOCX and Text files only. Please use Gemini for PDF resumes.''),
        \<lparr>requests = [], timeouts = [1000, 2000], draws = 0\<rparr>)"
  using openai_pdf_run [OF text_jd] by (simp add: pdf_resume_def pdf_mime_def)

lemma pdf_parts:
  "gemini_parts demo_env pdf_resume ''JVBERi0xLjQK'' (Some pdf_jd) jd =
     Inr [InlineData pdf_mime (Some ''JVBERi0xLjQK''), InlineData pdf_mime (Some ''JVBERi0xLjQK''),
          Text (getCommonPrompt jd)]"
  using mime_distinct by (simp add: gemini_parts_def pdf_resume_facts pdf_jd_facts)

text \<open>The amended C5 at a PDF resume and a PDF job description.\<close>

theorem pdf_documents_witness:
  "mimeType pdf_resume = pdf_mime
   \<and> gemini_parts demo_env pdf_resume ''JVBERi0xLjQK'' (Some pdf_jd)
        ''Job Description Context:\<newline>(See attached Job Description document)'' =
       Inr [InlineData pdf_mime (Some ''JVBERi0xLjQK''), InlineData pdf_mime (Some ''JVBERi0xLjQK''),
            Text (getCommonPrompt
                    ''Job Description Context:\<newline>(See attached Job Description document)'')]
   \<and> mimeType pdf_jd = pdf_mime
   \<and> InlineData pdf_mime (base64 pdf_jd)
       \<in> set [InlineData pdf_mime (Some ''JVBERi0xLjQK''), InlineData pdf_mime (Some ''JVBERi0xLjQK''),
               Text (getCommonPrompt
                       ''Job Description Context:\<newline>(See attached Job Description document)'')]
   \<and> truthy (API_KEY demo_env)
   \<and> requests (snd (operation_of demo_env pdf_resume ''JVBERi0xLjQK'' (Some pdf_jd)
                       ''gemini-2.5-flash'' gemini
                       ''Job Description Context:\<newline>(See attached Job Description document)''
                       world0)) =
       requests world0 @
       [generateContent ''gemini-2.5-flash''
          [InlineData pdf_mime (Some ''JVBERi0xLjQK''), InlineData pdf_mime (Some ''JVBERi0xLjQK''),
           Text (getCommonPrompt
                   ''Job Description Context:\<newline>(See attached Job Description document)'')]]
   \<and> attached (Some pdf_jd) = Some (pdf_jd, ''JVBERi0xLjQK'')
   \<and> jdContext_of demo_env openai [] (Some pdf_jd) =
       Inr (''Job Description Context:\<newline>''
            @ ''(Attached JD is a PDF - Please copy text for better results)'')
   \<and> truthy (OPENAI_API_KEY demo_env)
   \<and> openai_resume_text demo_env text_resume ''SmFuZSBEb2U='' = Inr ''Jane Doe''
   \<and> requests (snd (operation_of demo_env text_resume ''SmFuZSBEb2U='' (Some pdf_jd) ''gpt-4o'' openai
                       ''Job Description Context:\<newline>(Attached JD is a PDF - Please copy text for better results)''
                       world0)) =
       requests world0 @
       [chat_completions_create ''gpt-4o''
          (openai_messages
             ''Job Description Context:\<newline>(Attached JD is a PDF - Please copy text for better results)''
             ''Jane Doe'')]
   \<and> \<not> is_mock pdf_resume \<and> base64 pdf_resume = Some ''JVBERi0xLjQK''
   \<and> screenResume demo_env pdf_resume [] (Some pdf_jd) ''gpt-4o'' openai world0 =
       (Inl (Error ''OpenAI mode currently supports DOCX and Text files only. Please use Gemini for PDF resumes.''),
        world0\<lparr>timeouts := timeouts world0 @ [1000, 2000]\<rparr>)"
proof -
  note a = pdf_documents
    [where env = demo_env and resume = pdf_resume and data = "''JVBERi0xLjQK''"
       and jdFile = "Some pdf_jd" and f = pdf_jd
       and jd = "''Job Description Context:\<newline>(See attached Job Description document)''"
       and parts = "[InlineData pdf_mime (Some ''JVBERi0xLjQK''),
                     InlineData pdf_mime (Some ''JVBERi0xLjQK''),
                     Text (getCommonPrompt
                       ''Job Description Context:\<newline>(See attached Job Description document)'')]"
       and model = "''gemini-2.5-flash''" and w = world0]
  note b = pdf_documents
    [where env = demo_env and resume = pdf_resume and data = "''JVBERi0xLjQK''"
       and jdFile = "Some pdf_jd" and f = pdf_jd and b = "''JVBERi0xLjQK''" and jdText = "[]"
       and jd = "''Job Description Context:\<newline>(Attached JD is a PDF - Please copy text for better results)''"
       and model = "''gpt-4o''" and w = world0]
  note c = pdf_documents
    [where env = demo_env and resume = text_resume and data = "''SmFuZSBEb2U=''"
       and jdFile = "Some pdf_jd" and body = "''Jane Doe''"
       and jd = "''Job Description Context:\<newline>(Attached JD is a PDF - Please copy text for better results)''"
       and model = "''gpt-4o''" and w = world0]
  from a b c show ?thesis
    by (simp add: pdf_resume_facts pdf_jd_facts pdf_parts demo_env_facts pdf_jd_context
          text_resume_text)
qed

lemma image_resume_facts:
  "\<not> is_mock image_resume" "base64 image_resume = Some ''iVBORw0KGgo=''"
  "mimeType image_resume = ''image/png''"
  by (simp_all add: is_mock_def image_resume_def)

lemma png_mime:
  "''image/png'' \<noteq> docx_mime" "''image/png'' \<noteq> pdf_mime"
  by (simp_all add: docx_mime_def pdf_mime_def)

lemma png_bytes:
  "atob demo_env ''iVBORw0KGgo='' =
     Inr [CHR 0x89, CHR ''P'', CHR ''N'', CHR ''G'', CHR 0x0D, CHR 0x0A, CHR 0x1A, CHR 0x0A]"
  "\<not> blank [CHR 0x89, CHR ''P'', CHR ''N'', CHR ''G'', CHR 0x0D, CHR 0x0A, CHR 0x1A, CHR 0x0A]"
  by (simp_all add: demo_env_def blank_def js_space_def)

lemma image_parts:
  "gemini_parts demo_env image_resume ''iVBORw0KGgo='' None jd =
     Inr [InlineData ''image/png'' (Some ''iVBORw0KGgo=''), Text (getCommonPrompt jd)]"
  by (simp add: gemini_parts_def image_resume_facts png_mime)

lemma image_text:
  "openai_resume_text demo_env image_resume ''iVBORw0KGgo='' =
     Inr [CHR 0x89, CHR ''P'', CHR ''N'', CHR ''G'', CHR 0x0D, CHR 0x0A, CHR 0x1A, CHR 0x0A]"
  by (simp add: openai_resume_text_def image_resume_facts png_mime png_bytes)

lemma image_gemini_run:
  "fst (screenResume demo_env image_resume ''Engineer'' None ''gemini-2.5-flash'' gemini world0)
     = Inr reply_value"
proof -
  have "operation_of demo_env image_resume ''iVBORw0KGgo='' None ''gemini-2.5-flash'' gemini
          ''Job Description Context:\<newline>Engineer'' world0 =
        (Inr reply_value,
         world0\<lparr>requests := requests world0 @
           [generateContent ''gemini-2.5-flash''
              [InlineData ''image/png'' (Some ''iVBORw0KGgo=''),
               Text (getCommonPrompt ''Job Description Context:\<newline>Engineer'')]]\<rparr>)"
    by (rule gemini_first_attempt [where t = reply_text])
       (simp_all add: demo_env_facts image_parts reply_not_empty reply_parses)
  then show ?thesis
    using screenResume_provider_path [OF image_resume_facts(1,2) _ text_jd [where provider = gemini]]
    by (simp add: retryOperation_success)
qed

lemma image_openai_run:
  "fst (screenResume demo_env image_resume ''Engineer'' None ''gpt-4o'' openai world0)
     = Inr reply_value"
proof -
  have "operation_of demo_env image_resume ''iVBORw0KGgo='' None ''gpt-4o'' openai
          ''Job Description Context:\<newline>Engineer'' world0 =
        (Inr reply_value,
         world0\<lparr>requests := requests world0 @
           [chat_completions_create ''gpt-4o''
              (openai_messages ''Job Description Context:\<newline>Engineer''
                 [CHR 0x89, CHR ''P'', CHR ''N'', CHR ''G'', CHR 0x0D, CHR 0x0A, CHR 0x1A,
                  CHR 0x0A])]\<rparr>)"
    by (rule openai_first_attempt [where t = reply_text])
       (simp_all add: demo_env_facts image_text reply_not_empty reply_parses)
  then show ?thesis
    using screenResume_provider_path [OF image_resume_facts(1,2) _ text_jd [where provider = openai]]
    by (simp add: retryOperation_success)
qed

lemma docx_resume_facts:
  "\<not> is_mock docx_resume" "base64 docx_resume = Some ''UEsDBBQABgAIAAAAIQ==''"
  "mimeType docx_resume = docx_mime"
  "extractTextFromDocx demo_env ''UEsDBBQABgAIAAAAIQ=='' = []"
  by (simp_all add: is_mock_def docx_resume_def extractTextFromDocx_def demo_env_def)

lemma docx_parts:
  "gemini_parts demo_env docx_resume ''UEsDBBQABgAIAAAAIQ=='' None jd = Inl (Error ''Empty DOCX'')"
  by (simp add: gemini_parts_def docx_resume_facts)

lemma docx_gemini_run:
  "screenResume demo_env docx_resume ''Engineer'' None ''gemini-2.5-flash'' gemini world0 =
     (Inl (Error ''Empty DOCX''), \<lparr>requests = [], timeouts = [1000, 2000], draws = 0\<rparr>)"
proof -
  have "\<forall>w. operation_of demo_env docx_resume ''UEsDBBQABgAIAAAAIQ=='' None ''gemini-2.5-flash''
              gemini ''Job Description Context:\<newline>Engineer'' w =
        (Inl (Error ''Empty DOCX''), w)"
    by (simp add: operation_of_def gemini_operation_def docx_parts demo_env_facts)
  from retry_constant_failure [OF this, of world0]
  show ?thesis
    using screenResume_provider_path [OF docx_resume_facts(1,2) _ text_jd [where provider = gemini]]
    by (simp add: world0_def)
qed

lemma text_gemini_run_any:
  "screenResume demo_env text_resume ''Engineer'' None model gemini w =
     (Inr reply_value,
      w\<lparr>requests := requests w @
        [generateContent model
           [InlineData ''text/plain'' (Some ''SmFuZSBEb2U=''),
            Text (getCommonPrompt ''Job Description Context:\<newline>Engineer'')]]\<rparr>)"
proof -
  have "operation_of demo_env text_resume ''SmFuZSBEb2U='' None model gemini
          ''Job Description Context:\<newline>Engineer'' w =
        (Inr reply_value,
         w\<lparr>requests := requests w @
           [generateContent model
              [InlineData ''text/plain'' (Some ''SmFuZSBEb2U=''),
               Text (getCommonPrompt ''Job Description Context:\<newline>Engineer'')]]\<rparr>)"
    by (rule gemini_first_attempt [where t = reply_text])
       (simp_all add: demo_env_facts text_resume_parts reply_not_empty reply_parses)
  then show ?thesis
    using screenResume_provider_path [OF text_resume_facts(1,2) _ text_jd [where provider = gemini]]
    by (simp add: retryOperation_success)
qed

lemma image_gemini_run_any:
  "screenResume demo_env image_resume ''Engineer'' None model gemini w =
     (Inr reply_value,
      w\<lparr>requests := requests w @
        [generateContent model
           [InlineData ''image/png'' (Some ''iVBORw0KGgo=''),
            Text (getCommonPrompt ''Job Description Context:\<newline>Engineer'')]]\<rparr>)"
proof -
  have "operation_of demo_env image_resume ''iVBORw0KGgo='' None model gemini
          ''Job Description Context:\<newline>Engineer'' w =
        (Inr reply_value,
         w\<lparr>requests := requests w @
           [generateContent model
              [InlineData ''image/png'' (Some ''iVBORw0KGgo=''),
               Text (getCommonPrompt ''Job Description Context:\<newline>Engineer'')]]\<rparr>)"
    by (rule gemini_first_attempt [where t = reply_text])
       (simp_all add: demo_env_facts image_parts reply_not_empty reply_parses)
  then show ?thesis
    using screenResume_provider_path [OF image_resume_facts(1,2) _ text_jd [where provider = gemini]]
    by (simp add: retryOperation_success)
qed

lemma image_batch:
  "fst (handleScreening demo_env [text_resume, image_resume] TEXT ''Engineer'' no_file
          ''gemini-2.5-flash'' gemini world0) = Inr ([reply_value, reply_value], [])"
  by (simp add: handleScreening_def not_blank text_gemini_run_any image_gemini_run_any)

text \<open>
  Against C9 as stated: a PNG image is screened with either provider and a result comes back,
  so a batch of a text resume and an image returns two results and no failure entry, while
  a word-processing document, a supported type, makes the preparation fail when no text can
  be extracted from it.
\<close>

theorem image_screened_docx_refused:
  "mimeType image_resume = ''image/png''
   \<and> fst (screenResume demo_env image_resume ''Engineer'' None ''gemini-2.5-flash'' gemini world0)
       = Inr reply_value
   \<and> fst (screenResume demo_env image_resume ''Engineer'' None ''gpt-4o'' openai world0)
       = Inr reply_value
   \<and> fst (handleScreening demo_env [text_resume, image_resume] TEXT ''Engineer'' no_file
             ''gemini-2.5-flash'' gemini world0) = Inr ([reply_value, reply_value], [])
   \<and> mimeType docx_resume
       = ''application/vnd.openxmlformats-officedocument.wordprocessingml.document''
   \<and> screenResume demo_env docx_resume ''Engineer'' None ''gemini-2.5-flash'' gemini world0 =
       (Inl (Error ''Empty DOCX''), \<lparr>requests = [], timeouts = [1000, 2000], draws = 0\<rparr>)"
  by (simp add: image_resume_facts image_gemini_run image_openai_run docx_gemini_run
        docx_resume_facts docx_mime_def image_batch)

text \<open>The amended C9 at the PNG image and at the word-processing document.\<close>

theorem media_type_not_checked_witness:
  "mimeType image_resume \<noteq> docx_mime \<and> mimeType image_resume \<noteq> pdf_mime
   \<and> (\<exists>rest. gemini_parts demo_env image_resume ''iVBORw0KGgo='' None
                 ''Job Description Context:\<newline>Engineer'' =
               Inr (InlineData ''image/png'' (Some ''iVBORw0KGgo='') # rest))
   \<and> atob demo_env ''iVBORw0KGgo='' =
       Inr [CHR 0x89, CHR ''P'', CHR ''N'', CHR ''G'', CHR 0x0D, CHR 0x0A, CHR 0x1A, CHR 0x0A]
   \<and> \<not> blank [CHR 0x89, CHR ''P'', CHR ''N'', CHR ''G'', CHR 0x0D, CHR 0x0A, CHR 0x1A, CHR 0x0A]
   \<and> openai_resume_text demo_env image_resume ''iVBORw0KGgo='' =
       Inr [CHR 0x89, CHR ''P'', CHR ''N'', CHR ''G'', CHR 0x0D, CHR 0x0A, CHR 0x1A, CHR 0x0A]
   \<and> gemini_parts demo_env image_resume ''iVBORw0KGgo='' None
        ''Job Description Context:\<newline>Engineer'' \<noteq> Inl (Error ''Empty DOCX'')
   \<and> mimeType docx_resume = docx_mime
   \<and> blank (extractTextFromDocx demo_env ''UEsDBBQABgAIAAAAIQ=='')
   \<and> gemini_parts demo_env docx_resume ''UEsDBBQABgAIAAAAIQ=='' None
        ''Job Description Context:\<newline>Engineer'' = Inl (Error ''Empty DOCX'')"
proof -
  note a = media_type_not_checked
    [where env = demo_env and resume = image_resume and data = "''iVBORw0KGgo=''"
       and jdFile = None and jd = "''Job Description Context:\<newline>Engineer''"
       and e = "Error ''Empty DOCX''"
       and t = "[CHR 0x89, CHR ''P'', CHR ''N'', CHR ''G'', CHR 0x0D, CHR 0x0A, CHR 0x1A, CHR 0x0A]"]
  note b = media_type_not_checked
    [where env = demo_env and resume = docx_resume and data = "''UEsDBBQABgAIAAAAIQ==''"
       and jdFile = None and jd = "''Job Description Context:\<newline>Engineer''"
       and e = "Error ''Empty DOCX''"]
  from a b show ?thesis
    by (simp add: image_resume_facts png_mime png_bytes docx_resume_facts blank_Nil)
qed

end
